theory Spec2Isabelle
  imports Main "HOL-Library.Word"
begin

section \<open>Errors\<close>

text \<open>
  Go \<open>error\<close> values that the modelled code creates, receives or forwards.
  \<^item> \<open>ErrInvalidOutputType\<close> is the sentinel \<open>types.ErrInvalidOutputType\<close> that
    \<open>output.Construct\<close> returns by name.
  \<^item> \<open>External m\<close> is an error handed over by a collaborator (the redis client,
    \<open>time.ParseDuration\<close>, the bloblang parser, a registered constructor).
  \<^item> \<open>ErrorfErr f e\<close> is \<open>fmt.Errorf(f, e)\<close> with an error argument and
    \<open>ErrorfStr f s\<close> is \<open>fmt.Errorf(f, s)\<close> with a string argument; the format and
    the argument are kept apart, so wrapping stays visible.
\<close>

datatype error =
    ErrInvalidOutputType
  | External string
  | ErrorfErr string error
  | ErrorfStr string string

section \<open>The output registry (src/output/constructor.go)\<close>

text \<open>
  \<open>Config\<close> of package \<open>output\<close>: the \<open>type\<close> discriminator and the pointer to the
  ZMQ4 settings (\<open>None\<close> is the nil pointer). \<open>ZMQ4Config\<close> is declared outside the
  files at hand and stays a type parameter, as does the output stage interface \<open>Type\<close>.
\<close>

record 'z output_Config =
  Type :: string
  ZMQ4 :: "'z option"

text \<open>
  A Go constructor returns the pair \<open>(Type, error)\<close>; either component may be nil.
  The package-level variable \<open>constructors\<close> is a map from type names to constructors.
\<close>

type_synonym ('z, 'o) output_constructor = "'z output_Config \<Rightarrow> 'o option \<times> error option"

type_synonym ('z, 'o) output_registry = "string \<rightharpoonup> ('z, 'o) output_constructor"

definition Construct ::
  "('z, 'o) output_registry \<Rightarrow> 'z output_Config \<Rightarrow> 'o option \<times> error option" where
  "Construct constructors conf =
     (case constructors (Type conf) of
        Some c \<Rightarrow> c conf
      | None \<Rightarrow> (None, Some ErrInvalidOutputType))"

section \<open>The redis processor: configuration and construction (src/lib/processor/redis.go)\<close>

type_synonym bytes = string

text \<open>\<open>time.Duration\<close> counts nanoseconds.\<close>

type_synonym duration = int

text \<open>
  \<open>RedisConfig\<close>. The embedded \<open>bredis.Config\<close> is declared elsewhere and is a type
  parameter. \<open>Retries\<close> is a Go \<open>int\<close>, 64 bits wide and signed on the usual targets:
  a \<open>64 word\<close> compared with the signed order.
\<close>

record 'c RedisConfig =
  Config :: 'c
  Parts :: "int list"
  Operator :: string
  Key :: string
  Retries :: "64 word"
  RetryPeriod :: string

text \<open>\<open>NewRedisConfig\<close>: the defaults, over the defaults \<open>bredis.NewConfig()\<close> of the
  embedded part.\<close>

definition NewRedisConfig :: "'c \<Rightarrow> 'c RedisConfig" where
  "NewRedisConfig bredis_NewConfig =
     \<lparr> Config = bredis_NewConfig, Parts = [], Operator = ''scard'', Key = [],
       Retries = 3, RetryPeriod = ''500ms'' \<rparr>"

text \<open>The processor package's \<open>Config\<close>; the redis processor reads its \<open>Redis\<close> field only.\<close>

record 'c processor_Config =
  Redis :: "'c RedisConfig"

text \<open>
  \<open>redisOperator\<close> is a function type over \<open>*Redis\<close>, and \<open>Redis\<close> holds one. The two
  closures that exist are represented by their names; \<open>apply_operator\<close> below runs them.
\<close>

datatype redisOperator = SCardOperator | SAddOperator

definition newRedisSCardOperator :: redisOperator where
  "newRedisSCardOperator = SCardOperator"

definition newRedisSAddOperator :: redisOperator where
  "newRedisSAddOperator = SAddOperator"

definition getRedisOperator :: "string \<Rightarrow> error + redisOperator" where
  "getRedisOperator opStr =
     (if opStr = ''sadd'' then Inr newRedisSAddOperator
      else if opStr = ''scard'' then Inr newRedisSCardOperator
      else Inl (ErrorfStr ''operator not recognised: %v'' opStr))"

text \<open>
  Modelled from the spec: \<open>types.Part\<close> is declared outside the files at hand. The spec
  (section 3) has a part as an opaque payload plus a mapping of metadata keys to values,
  and (section 4.2) has a failure recorded against the part, as metadata or as an error
  flag: the field \<open>failed\<close>.
\<close>

record part =
  payload :: bytes
  metadata :: "(string \<times> string) list"
  failed :: "error option"

text \<open>
  A compiled \<open>*field.Expression\<close> is used through \<open>String(index, msg)\<close> only and is
  represented by that function of the index and of the parts of the message.
\<close>

type_synonym expression = "nat \<Rightarrow> part list \<Rightarrow> string"

text \<open>
  The \<open>Redis\<close> struct. Counter handles are the names they were fetched under; the logger
  and the metrics registry are part of the world the processor runs in.
\<close>

record ('c, 'cl) Redis_proc =
  parts :: "int list"
  conf :: "'c processor_Config"
  key :: expression
  operator :: redisOperator
  client :: 'cl
  retryPeriod :: duration
  mCount :: string
  mErr :: string
  mSent :: string
  mBatchSent :: string
  mRedisRetry :: string

text \<open>
  The collaborators \<open>NewRedis\<close> calls: \<open>time.ParseDuration\<close>, the \<open>Client()\<close> method of
  the embedded configuration and \<open>bloblang.NewField\<close>.
\<close>

record ('c, 'cl) collaborators =
  ParseDuration :: "string \<Rightarrow> error + duration"
  Client :: "'c \<Rightarrow> error + 'cl"
  NewField :: "string \<Rightarrow> error + expression"

definition NewRedis ::
  "('c, 'cl) collaborators \<Rightarrow> 'c processor_Config \<Rightarrow> error + ('c, 'cl) Redis_proc" where
  "NewRedis env cnf =
     (let tout = RetryPeriod (Redis cnf) in
      case (if length tout > 0 then ParseDuration env tout else Inr 0) of
        Inl err \<Rightarrow> Inl (ErrorfErr ''failed to parse retry period string: %v'' err)
      | Inr rp \<Rightarrow>
     (case Client env (Config (Redis cnf)) of
        Inl err \<Rightarrow> Inl err
      | Inr cl \<Rightarrow>
     (case NewField env (Key (Redis cnf)) of
        Inl err \<Rightarrow> Inl (ErrorfErr ''failed to parse key expression: %v'' err)
      | Inr k \<Rightarrow>
     (case getRedisOperator (Operator (Redis cnf)) of
        Inl err \<Rightarrow> Inl err
      | Inr opr \<Rightarrow>
          Inr \<lparr> parts = Parts (Redis cnf), conf = cnf, key = k, operator = opr,
                client = cl, retryPeriod = rp,
                mCount = ''count'', mErr = ''error'', mSent = ''sent'',
                mBatchSent = ''batch.sent'', mRedisRetry = ''redis.retry'' \<rparr>))))"

section \<open>The world the processor runs in\<close>

text \<open>
  The commands the two operators send through the client, \<open>client.SCard(key)\<close> and
  \<open>client.SAdd(key, value)\<close>.
\<close>

datatype command = SCard string | SAdd string bytes

text \<open>
  Modelled from the spec: the logger, the metrics registry and the tracer are
  collaborators declared outside the files at hand; the spec (section 6) has named
  counters that can be incremented and spans that are started for a part and finished.
  Log lines keep the format and the arguments of the logging call.
\<close>

datatype log_entry =
    LogErrorf string error
  | LogDebugf string string error

datatype span_event = StartSpan string nat | FinishSpan string nat

text \<open>
  Everything outside the processor that its code reads or changes:
  \<^item> \<open>remote\<close>: the redis server as seen through the client. \<open>remote n c\<close> is the
    answer (\<open>Result()\<close>) to command \<open>c\<close> when it is the \<open>n\<close>-th command issued, an error
    or an \<open>int64\<close>. Any server behaviour over a run is such a function.
  \<^item> \<open>issued\<close>: the commands issued so far, oldest first;
  \<^item> \<open>clock\<close>: the time spent waiting, in nanoseconds;
  \<^item> \<open>counters\<close>: the metrics registry, by counter name;
  \<^item> \<open>logs\<close> and \<open>spans\<close>: what the logger and the tracer were given;
  \<^item> \<open>arena\<close> and \<open>next_cell\<close>: the part cells of all messages and the first cell
    never handed out;
  \<^item> \<open>close_latency\<close>, \<open>close_error\<close>, \<open>closed\<close>: how long the client's \<open>Close()\<close>
    takes, what it returns, and whether it has been called.
\<close>

record world =
  remote :: "nat \<Rightarrow> command \<Rightarrow> error + int"
  issued :: "command list"
  clock :: int
  counters :: "string \<Rightarrow> int"
  logs :: "log_entry list"
  spans :: "span_event list"
  arena :: "nat \<Rightarrow> part"
  next_cell :: nat
  close_latency :: duration
  close_error :: "error option"
  closed :: bool

definition client_call :: "command \<Rightarrow> world \<Rightarrow> (error + int) \<times> world" where
  "client_call c w = (remote w (length (issued w)) c, w\<lparr>issued := issued w @ [c]\<rparr>)"

definition log_Errorf :: "string \<Rightarrow> error \<Rightarrow> world \<Rightarrow> world" where
  "log_Errorf f e w = w\<lparr>logs := logs w @ [LogErrorf f e]\<rparr>"

definition log_Debugf :: "string \<Rightarrow> string \<Rightarrow> error \<Rightarrow> world \<Rightarrow> world" where
  "log_Debugf f k e w = w\<lparr>logs := logs w @ [LogDebugf f k e]\<rparr>"

text \<open>\<open><-time.After(d)\<close>: the timer fires after \<open>d\<close>, at once when \<open>d\<close> is not positive.\<close>

definition sleep :: "duration \<Rightarrow> world \<Rightarrow> world" where
  "sleep d w = w\<lparr>clock := clock w + max 0 d\<rparr>"

text \<open>Modelled from the spec: \<open>Incr(n)\<close> on the counter fetched under \<open>name\<close> adds \<open>n\<close>
  to it.\<close>

definition Incr :: "string \<Rightarrow> int \<Rightarrow> world \<Rightarrow> world" where
  "Incr name n w = w\<lparr>counters := (counters w)(name := counters w name + n)\<rparr>"

section \<open>The operators and their retry loop\<close>

text \<open>\<open>strconv.AppendInt(dst, n, 10)\<close>: the decimal digits of \<open>n\<close>, after a minus sign
  when \<open>n\<close> is negative, appended to \<open>dst\<close>.\<close>

fun digits10 :: "nat \<Rightarrow> string" where
  "digits10 n =
     (if n < 10 then [''0123456789'' ! n]
      else digits10 (n div 10) @ [''0123456789'' ! (n mod 10)])"

declare digits10.simps [simp del]

definition AppendInt10 :: "bytes \<Rightarrow> int \<Rightarrow> bytes" where
  "AppendInt10 dst n =
     dst @ (if n < 0 then CHR ''-'' # digits10 (nat (- n)) else digits10 (nat n))"

text \<open>
  One turn of the loop body shared by both closures: log the failure, wait for the retry
  period, count the retry, issue the command again.
\<close>

definition retry_body ::
  "('c, 'cl) Redis_proc \<Rightarrow> command \<Rightarrow> error \<Rightarrow> world \<Rightarrow> (error + int) \<times> world" where
  "retry_body r c err w =
     (let w1 = log_Errorf ''SCard command failed: %v\<newline>'' err w;
          w2 = sleep (retryPeriod r) w1;
          w3 = Incr (mRedisRetry r) 1 w2
      in client_call c w3)"

text \<open>
  \<open>for i := 0; i <= r.conf.Redis.Retries && err != nil; i++ { ... }\<close>, entered with the
  outcome of the first call. The loop of \<open>newRedisSCardOperator\<close> and the loop of
  \<open>newRedisSAddOperator\<close> are the same text but for the command they issue, which is the
  parameter \<open>c\<close>. The counter \<open>i\<close> is a Go \<open>int\<close> and \<open>i++\<close> wraps around; a loop that
  never ends has the value \<open>None\<close>.
\<close>

partial_function (option) retry_loop ::
  "('c, 'cl) Redis_proc \<Rightarrow> command \<Rightarrow> 64 word \<Rightarrow> (error + int) \<Rightarrow> world
     \<Rightarrow> ((error + int) \<times> world) option" where
  "retry_loop r c i res w =
     (case res of
        Inr n \<Rightarrow> Some (res, w)
      | Inl err \<Rightarrow>
          if i \<le>s Retries (Redis (conf r))
          then (case retry_body r c err w of (res', w') \<Rightarrow> retry_loop r c (i + 1) res' w')
          else Some (res, w))"

declare retry_loop.simps [code]

text \<open>
  The body of a closure: first call, loop, then \<open>(nil, err)\<close> or the formatted number.
\<close>

definition run_command ::
  "('c, 'cl) Redis_proc \<Rightarrow> command \<Rightarrow> world \<Rightarrow> ((error + bytes) \<times> world) option" where
  "run_command r c w =
     (case client_call c w of (res, w1) \<Rightarrow>
      (case retry_loop r c 0 res w1 of
         None \<Rightarrow> None
       | Some (Inl err, w') \<Rightarrow> Some (Inl err, w')
       | Some (Inr n, w') \<Rightarrow> Some (Inr (AppendInt10 [] n), w')))"

text \<open>The command a closure issues for a key and a value: \<open>SCard(key)\<close> in the one,
  \<open>SAdd(key, value)\<close> in the other.\<close>

fun operator_command :: "redisOperator \<Rightarrow> string \<Rightarrow> bytes \<Rightarrow> command" where
  "operator_command SCardOperator k v = SCard k"
| "operator_command SAddOperator k v = SAdd k v"

text \<open>Calling a \<open>redisOperator\<close>: \<open>op(r, key, value)\<close> runs the closure it names.\<close>

definition apply_operator ::
  "redisOperator \<Rightarrow> ('c, 'cl) Redis_proc \<Rightarrow> string \<Rightarrow> bytes \<Rightarrow> world
     \<Rightarrow> ((error + bytes) \<times> world) option" where
  "apply_operator opr r k v w = run_command r (operator_command opr k v) w"

section \<open>Shutdown\<close>

text \<open>\<open>CloseAsync\<close> has an empty body.\<close>

definition CloseAsync :: "('c, 'cl) Redis_proc \<Rightarrow> world \<Rightarrow> world" where
  "CloseAsync r w = w"

text \<open>
  \<open>client.Close()\<close> of the redis client: it returns when the connection is released,
  \<open>close_latency\<close> later, with the client's own error or nil.
\<close>

definition client_Close :: "'cl \<Rightarrow> world \<Rightarrow> error option \<times> world" where
  "client_Close cl w =
     (close_error w, w\<lparr>closed := True, clock := clock w + max 0 (close_latency w)\<rparr>)"

text \<open>\<open>WaitForClose\<close> calls \<open>r.client.Close()\<close>, drops what it returns, and returns nil;
  \<open>timeout\<close> is not read.\<close>

definition WaitForClose ::
  "('c, 'cl) Redis_proc \<Rightarrow> duration \<Rightarrow> world \<Rightarrow> error option \<times> world" where
  "WaitForClose r timeout w = (case client_Close (client r) w of (_, w') \<Rightarrow> (None, w'))"

section \<open>Messages and the iteration over parts\<close>

text \<open>
  Modelled from the spec: the types \<open>types.Message\<close> and \<open>types.Part\<close> and the function
  \<open>IteratePartsWithSpan\<close> are used by \<open>ProcessMessage\<close> but declared outside the files
  at hand. The spec (sections 3, 4.1 and 4.2) has: a part is a payload plus metadata,
  mutable in place, owned by its batch and never shared across batches; a batch is an
  ordered sequence of parts; \<open>duplicate\<close> gives a batch whose parts are its own, with the
  payloads of the original; \<open>part_count\<close>, \<open>get_payload\<close>, \<open>set_payload\<close>; the iteration
  targets all parts when the selector is empty, ignores indices out of range, visits the
  targeted indices in ascending order, each once, inside a span named after the
  operation, records a failure against the part and goes on, and reports whether any
  part failed.

  A message is the list of the cells that hold its parts; a cell is named by its number
  in the \<open>arena\<close> of the world.
\<close>

type_synonym message = "nat list"

text \<open>Modelled from the spec: \<open>msg.Len()\<close> is \<open>part_count\<close>.\<close>

definition Len :: "message \<Rightarrow> nat" where
  "Len msg = length msg"

text \<open>Modelled from the spec: \<open>part.Get()\<close> is \<open>get_payload\<close>, on the cell of the part.\<close>

definition part_Get :: "nat \<Rightarrow> world \<Rightarrow> bytes" where
  "part_Get h w = payload (arena w h)"

text \<open>Modelled from the spec: \<open>part.Set(b)\<close> is \<open>set_payload\<close>; it changes the part in
  place, that is, the cell of the part.\<close>

definition part_Set :: "nat \<Rightarrow> bytes \<Rightarrow> world \<Rightarrow> world" where
  "part_Set h b w = w\<lparr>arena := (arena w)(h := (arena w h)\<lparr>payload := b\<rparr>)\<rparr>"

text \<open>Modelled from the spec: recording a failure against a part (section 4.2).\<close>

definition FlagErr :: "nat \<Rightarrow> error \<Rightarrow> world \<Rightarrow> world" where
  "FlagErr h e w = w\<lparr>arena := (arena w)(h := (arena w h)\<lparr>failed := Some e\<rparr>)\<rparr>"

text \<open>The contents of a message, as a field expression reads them.\<close>

definition contents :: "message \<Rightarrow> world \<Rightarrow> part list" where
  "contents msg w = map (arena w) msg"

text \<open>Modelled from the spec: \<open>msg.Copy()\<close> is \<open>duplicate\<close>. The copy has its own parts,
  in fresh cells, each with the payload and the metadata of the part it copies.\<close>

definition Copy_msg :: "message \<Rightarrow> world \<Rightarrow> message \<times> world" where
  "Copy_msg msg w =
     (let n = next_cell w in
      ([n ..< n + length msg],
       w\<lparr>arena := (\<lambda>a. if n \<le> a \<and> a < n + length msg then arena w (msg ! (a - n))
                         else arena w a),
         next_cell := n + length msg\<rparr>))"

text \<open>Modelled from the spec: starting and finishing the span of part \<open>i\<close>, labelled
  with the operation name.\<close>

definition start_span :: "string \<Rightarrow> nat \<Rightarrow> world \<Rightarrow> world" where
  "start_span name i w = w\<lparr>spans := spans w @ [StartSpan name i]\<rparr>"

definition finish_span :: "string \<Rightarrow> nat \<Rightarrow> world \<Rightarrow> world" where
  "finish_span name i w = w\<lparr>spans := spans w @ [FinishSpan name i]\<rparr>"

text \<open>Modelled from the spec: the targeted indices of a message of \<open>n\<close> parts, in
  ascending order; all of them when the selector is empty, and otherwise those the
  selector names, each once, an index out of range being ignored.\<close>

definition targets :: "int list \<Rightarrow> nat \<Rightarrow> nat list" where
  "targets ps n = (if ps = [] then [0..<n] else filter (\<lambda>i. int i \<in> set ps) [0..<n])"

text \<open>
  Modelled from the spec: \<open>IteratePartsWithSpan\<close> (section 4.2). The function handed to
  it gets the index and the part (its cell) and returns an error or nil; \<open>None\<close> stands
  for a call that does not return. For each targeted index in turn the span is started,
  the function is called, an error it returns is recorded against the part, and the
  span is finished; the iteration goes on after a failure and returns whether any part
  failed.
\<close>

type_synonym part_fn = "nat \<Rightarrow> nat \<Rightarrow> world \<Rightarrow> (error option \<times> world) option"

fun iterate_parts :: "string \<Rightarrow> nat list \<Rightarrow> message \<Rightarrow> part_fn \<Rightarrow> world \<Rightarrow> (bool \<times> world) option" where
  "iterate_parts name [] msg fn w = Some (False, w)"
| "iterate_parts name (i # rest) msg fn w =
     (let w1 = start_span name i w in
      case fn i (msg ! i) w1 of
        None \<Rightarrow> None
      | Some (err, w2) \<Rightarrow>
          (let w3 = (case err of None \<Rightarrow> w2 | Some e \<Rightarrow> FlagErr (msg ! i) e w2);
               w4 = finish_span name i w3
           in case iterate_parts name rest msg fn w4 of
                None \<Rightarrow> None
              | Some (any, w') \<Rightarrow> Some (err \<noteq> None \<or> any, w')))"

definition IteratePartsWithSpan ::
  "string \<Rightarrow> int list \<Rightarrow> message \<Rightarrow> part_fn \<Rightarrow> world \<Rightarrow> (bool \<times> world) option" where
  "IteratePartsWithSpan operationName ps msg fn w =
     iterate_parts operationName (targets ps (Len msg)) msg fn w"

section \<open>Processing a message\<close>

text \<open>The type name of the processor, as in its documented configuration (\<open>- redis:\<close>).\<close>

definition TypeRedis :: string where
  "TypeRedis = ''redis''"

text \<open>The closure \<open>proc\<close> of \<open>ProcessMessage\<close>; \<open>newMsg\<close> is the variable it captures.\<close>

definition proc :: "('c, 'cl) Redis_proc \<Rightarrow> message \<Rightarrow> part_fn" where
  "proc r newMsg index part w =
     (let k = key r index (contents newMsg w) in
      case apply_operator (operator r) r k (part_Get part w) w of
        None \<Rightarrow> None
      | Some (Inl err, w1) \<Rightarrow>
          (let w2 = Incr (mErr r) 1 w1;
               w3 = log_Debugf ''Operator failed for key '%s': %v\<newline>'' k err w2
           in Some (Some err, w3))
      | Some (Inr res, w1) \<Rightarrow> Some (None, part_Set part res w1))"

text \<open>A \<open>types.Response\<close> is not declared in the files at hand; \<open>ProcessMessage\<close> returns
  the nil response only, so any type will do for it.\<close>

definition ProcessMessage ::
  "('c, 'cl) Redis_proc \<Rightarrow> message \<Rightarrow> world \<Rightarrow> ((message list \<times> 'resp option) \<times> world) option" where
  "ProcessMessage r msg w =
     (let w1 = Incr (mCount r) 1 w in
      case Copy_msg msg w1 of (newMsg, w2) \<Rightarrow>
      (case IteratePartsWithSpan TypeRedis (parts r) newMsg (proc r newMsg) w2 of
         None \<Rightarrow> None
       | Some (_, w3) \<Rightarrow>
           (let w4 = Incr (mBatchSent r) 1 w3;
                w5 = Incr (mSent r) (int (Len newMsg)) w4
            in Some (([newMsg], None), w5))))"

text \<open>
  The call \<open>r.operator(r, key, part.Get())\<close> that \<open>proc\<close> makes for part \<open>i\<close> of the
  message \<open>m\<close> when the world is \<open>w\<close>, with what it returns.
\<close>

definition operator_call ::
  "('c, 'cl) Redis_proc \<Rightarrow> message \<Rightarrow> nat \<Rightarrow> world \<Rightarrow> ((error + bytes) \<times> world) option" where
  "operator_call r m i w =
     apply_operator (operator r) r (key r i (contents m w)) (part_Get (m ! i) w) w"

section \<open>The retry loop, unrolled\<close>

text \<open>
  At most \<open>m\<close> turns of the loop body, stopping at the first success: what
  \<open>retry_loop\<close> computes when \<open>m\<close> turns are all it can take. Used in proofs only.
\<close>

fun retry_iter ::
  "('c, 'cl) Redis_proc \<Rightarrow> command \<Rightarrow> nat \<Rightarrow> (error + int) \<Rightarrow> world \<Rightarrow> (error + int) \<times> world" where
  "retry_iter r c 0 res w = (res, w)"
| "retry_iter r c (Suc m) res w =
     (case res of
        Inr n \<Rightarrow> (res, w)
      | Inl err \<Rightarrow> (case retry_body r c err w of (res', w') \<Rightarrow> retry_iter r c m res' w'))"

section \<open>Example configurations, processors and worlds\<close>

text \<open>A registry with one output type.\<close>

definition demo_registry :: "(unit, string) output_registry" where
  "demo_registry =
     [''zmq4'' \<mapsto> (\<lambda>cnf. case ZMQ4 cnf of
                          None \<Rightarrow> (None, Some (External ''zmq4: no settings''))
                        | Some _ \<Rightarrow> (Some ''zmq4 output'', None))]"

text \<open>
  Collaborators that accept the default retry period, always connect, and compile the
  key \<open>${! content() }\<close> to the payload of the part at hand and any other key to its
  own text.
\<close>

definition demo_env :: "(unit, unit) collaborators" where
  "demo_env =
     \<lparr> ParseDuration = (\<lambda>s. if s = ''500ms'' then Inr 500000000
                             else Inl (External ''time: invalid duration'')),
       Client = (\<lambda>_. Inr ()),
       NewField = (\<lambda>s. if s = ''${! content() }''
                        then Inr (\<lambda>i ps. if i < length ps then payload (ps ! i) else [])
                        else Inr (\<lambda>i ps. s)) \<rparr>"

text \<open>The default configuration with the key set, and the processor built from it.\<close>

definition demo_conf :: "unit processor_Config" where
  "demo_conf = \<lparr> Redis = (NewRedisConfig ())\<lparr>Key := ''${! content() }''\<rparr> \<rparr>"

definition demo_proc :: "(unit, unit) Redis_proc" where
  "demo_proc =
     \<lparr> parts = [], conf = demo_conf,
       key = (\<lambda>i ps. if i < length ps then payload (ps ! i) else []),
       operator = SCardOperator, client = (), retryPeriod = 500000000,
       mCount = ''count'', mErr = ''error'', mSent = ''sent'',
       mBatchSent = ''batch.sent'', mRedisRetry = ''redis.retry'' \<rparr>"

text \<open>A world in which nothing has happened yet, around a given server.\<close>

definition world0 :: "(nat \<Rightarrow> command \<Rightarrow> error + int) \<Rightarrow> world" where
  "world0 srv =
     \<lparr> remote = srv, issued = [], clock = 0, counters = (\<lambda>_. 0), logs = [], spans = [],
       arena = (\<lambda>_. \<lparr>payload = [], metadata = [], failed = None\<rparr>), next_cell = 0,
       close_latency = 0, close_error = None, closed = False \<rparr>"

text \<open>A server that cannot be reached, one that answers from the \<open>k\<close>-th command on,
  and one that holds the set \<open>s1\<close> of four members and nothing else.\<close>

definition offline :: "nat \<Rightarrow> command \<Rightarrow> error + int" where
  "offline n c = Inl (External ''connection refused'')"

definition flaky :: "nat \<Rightarrow> int \<Rightarrow> nat \<Rightarrow> command \<Rightarrow> error + int" where
  "flaky k v n c = (if n < k then Inl (External ''i/o timeout'') else Inr v)"

definition set_store :: "nat \<Rightarrow> command \<Rightarrow> error + int" where
  "set_store n c = (if c = SCard ''s1'' then Inr 4 else Inr 0)"

text \<open>
  A turn of the loop body during whose wait another goroutine calls \<open>CloseAsync\<close>,
  when \<open>d\<close> of the retry period has passed.
\<close>

definition retry_body_interrupted ::
  "('c, 'cl) Redis_proc \<Rightarrow> command \<Rightarrow> error \<Rightarrow> duration \<Rightarrow> world \<Rightarrow> (error + int) \<times> world" where
  "retry_body_interrupted r c err d w =
     (let w1 = log_Errorf ''SCard command failed: %v\<newline>'' err w;
          w2 = sleep d w1;
          w3 = CloseAsync r w2;
          w4 = sleep (retryPeriod r - d) w3;
          w5 = Incr (mRedisRetry r) 1 w4
      in client_call c w5)"

text \<open>A world whose client takes five seconds to close, and the world right after a first
  command that failed.\<close>

definition slow_to_close :: world where
  "slow_to_close = (world0 offline)\<lparr>close_latency := 5000000000\<rparr>"

definition first_call_failed :: world where
  "first_call_failed = (world0 offline)\<lparr>issued := [SCard ''s1'']\<rparr>"

text \<open>
  A server on which the set \<open>s1\<close> cannot be reached and every other set is empty, and a
  world that holds a message of two parts, \<open>s1\<close> in cell 0 and \<open>s2\<close> in cell 1.
\<close>

definition s1_down :: "nat \<Rightarrow> command \<Rightarrow> error + int" where
  "s1_down n c = (if c = SCard ''s1'' then Inl (External ''connection refused'') else Inr 0)"

definition two_parts :: "(nat \<Rightarrow> command \<Rightarrow> error + int) \<Rightarrow> world" where
  "two_parts srv =
     (world0 srv)
     \<lparr>arena := (\<lambda>a. if a = 0 then \<lparr>payload = ''s1'', metadata = [], failed = None\<rparr>
                     else if a = 1 then \<lparr>payload = ''s2'', metadata = [], failed = None\<rparr>
                     else \<lparr>payload = [], metadata = [], failed = None\<rparr>),
       next_cell := 2\<rparr>"

section \<open>The retry loop: auxiliary facts\<close>

lemma sint_succ_64: "sint (i :: 64 word) < 2 ^ 63 - 1 \<Longrightarrow> sint (i + 1) = sint i + 1"
proof -
  assume a: "sint i < 2 ^ 63 - 1"
  have lo: "- (2 ^ 63) \<le> sint i" using sint_ge [of i] by simp
  have "sint (i + 1) = signed_take_bit 63 (sint i + 1)"
    by (simp add: sint_word_add)
  also have "\<dots> = sint i + 1"
    using a lo by (simp add: signed_take_bit_int_eq_self)
  finally show ?thesis .
qed

lemma sint_le_max_64: "sint (i :: 64 word) \<le> 2 ^ 63 - 1"
  using sint_lt [of i] by simp

lemma retry_iter_Inr [simp]: "retry_iter r c m (Inr n) w = (Inr n, w)"
  by (cases m) simp_all

lemma retry_loop_Inr [simp]: "retry_loop r c i (Inr n) w = Some (Inr n, w)"
  by (subst retry_loop.simps) simp

lemma retry_loop_budget:
  "sint (Retries (Redis (conf r))) < 2 ^ 63 - 1 \<Longrightarrow>
   m = nat (sint (Retries (Redis (conf r))) + 1 - sint i) \<Longrightarrow>
   retry_loop r c i res w = Some (retry_iter r c m res w)"
proof (induction m arbitrary: i res w)
  case 0
  then have "\<not> i \<le>s Retries (Redis (conf r))" by (simp add: word_sle_eq)
  then show ?case by (subst retry_loop.simps) (simp split: sum.splits)
next
  case (Suc m)
  from Suc.prems have le: "i \<le>s Retries (Redis (conf r))" by (simp add: word_sle_eq)
  then have "sint i < 2 ^ 63 - 1" using Suc.prems(1) by (simp add: word_sle_eq)
  then have s: "sint (i + 1) = sint i + 1" by (rule sint_succ_64)
  have m: "m = nat (sint (Retries (Redis (conf r))) + 1 - sint (i + 1))"
    using Suc.prems(2) s by simp
  show ?case
  proof (cases res)
    case (Inl err)
    obtain res' w' where b: "retry_body r c err w = (res', w')" by (cases "retry_body r c err w")
    have "retry_loop r c i res w = retry_loop r c (i + 1) res' w'"
      using Inl le b by (subst retry_loop.simps) simp
    also have "\<dots> = Some (retry_iter r c m res' w')"
      using Suc.IH [OF Suc.prems(1) m] .
    finally show ?thesis using Inl b by simp
  next
    case (Inr n)
    then show ?thesis by simp
  qed
qed

lemma retry_loop_success:
  "sint i + int m \<le> sint (Retries (Redis (conf r))) + 1 \<Longrightarrow>
   \<not> isl (fst (retry_iter r c m res w)) \<Longrightarrow>
   retry_loop r c i res w = Some (retry_iter r c m res w)"
proof (induction m arbitrary: i res w)
  case 0
  then show ?case by (cases res) simp_all
next
  case (Suc m)
  show ?case
  proof (cases res)
    case (Inr n)
    then show ?thesis by simp
  next
    case (Inl err)
    obtain res' w' where b: "retry_body r c err w = (res', w')" by (cases "retry_body r c err w")
    from Suc.prems(1) have le: "i \<le>s Retries (Redis (conf r))" by (simp add: word_sle_eq)
    have step: "retry_loop r c i res w = retry_loop r c (i + 1) res' w'"
      using Inl le b by (subst retry_loop.simps) simp
    have it: "retry_iter r c (Suc m) res w = retry_iter r c m res' w'"
      using Inl b by simp
    show ?thesis
    proof (cases res')
      case (Inr n)
      then show ?thesis using step it by simp
    next
      case Inl2: (Inl err')
      have "m \<noteq> 0" using Suc.prems(2) it Inl2 by (cases m) auto
      then have "sint i < 2 ^ 63 - 1"
        using Suc.prems(1) sint_le_max_64 [of "Retries (Redis (conf r))"] by simp
      then have s: "sint (i + 1) = sint i + 1" by (rule sint_succ_64)
      have "retry_loop r c (i + 1) res' w' = Some (retry_iter r c m res' w')"
        using Suc.IH [of "i + 1" res' w'] Suc.prems s it by simp
      then show ?thesis using step it by simp
    qed
  qed
qed

lemma retry_loop_Some_iter:
  assumes "retry_loop r c i res w = Some y"
  shows "\<exists>m. y = retry_iter r c m res w"
proof (rule retry_loop.raw_induct
    [where P = "\<lambda>r c i res w y. \<exists>m. y = retry_iter r c m res w", OF _ assms], goal_cases)
  case (1 f r c i res w y)
  show ?case
  proof (cases res)
    case (Inr n)
    then show ?thesis using 1(2) by (intro exI [of _ 0]) simp
  next
    case (Inl err)
    show ?thesis
    proof (cases "i \<le>s Retries (Redis (conf r))")
      case True
      obtain res' w' where b: "retry_body r c err w = (res', w')" by (cases "retry_body r c err w")
      from 1(2) Inl True b have "f r c (i + 1) res' w' = Some y" by simp
      from 1(1) [OF this] obtain m where "y = retry_iter r c m res' w'" ..
      then have "y = retry_iter r c (Suc m) res w" using Inl b by simp
      then show ?thesis ..
    next
      case False
      then show ?thesis using 1(2) Inl by (intro exI [of _ 0]) simp
    qed
  qed
qed

lemma retry_body_eq:
  "retry_body r c err w =
     (remote w (length (issued w)) c,
      w\<lparr>logs := logs w @ [LogErrorf ''SCard command failed: %v\<newline>'' err],
        clock := clock w + max 0 (retryPeriod r),
        counters := (counters w)(mRedisRetry r := counters w (mRedisRetry r) + 1),
        issued := issued w @ [c]\<rparr>)"
  by (simp add: retry_body_def client_call_def log_Errorf_def sleep_def Incr_def Let_def)

lemma retry_iter_shape:
  "retry_iter r c m res w = (res', w') \<Longrightarrow>
   \<exists>m'\<le>m.
     issued w' = issued w @ replicate m' c \<and>
     remote w' = remote w \<and>
     counters w' = (counters w)(mRedisRetry r := counters w (mRedisRetry r) + int m') \<and>
     clock w' = clock w + int m' * max 0 (retryPeriod r) \<and>
     (m' = 0 \<longrightarrow> res' = res) \<and>
     (0 < m' \<longrightarrow> isl res \<and> res' = remote w (length (issued w) + m' - 1) c) \<and>
     (\<forall>j. Suc j < m' \<longrightarrow> isl (remote w (length (issued w) + j) c)) \<and>
     (m' < m \<longrightarrow> \<not> isl res')"
proof (induction m arbitrary: res w)
  case 0
  then show ?case by (simp add: fun_eq_iff)
next
  case (Suc m)
  show ?case
  proof (cases res)
    case (Inr n)
    with Suc.prems have "res' = res" "w' = w" by simp_all
    then show ?thesis using Inr by (intro exI [of _ 0]) (simp add: fun_eq_iff)
  next
    case (Inl err)
    define w1 where "w1 = snd (retry_body r c err w)"
    define res1 where "res1 = remote w (length (issued w)) c"
    have b: "retry_body r c err w = (res1, w1)"
      by (simp add: w1_def res1_def retry_body_eq)
    have w1: "issued w1 = issued w @ [c]" "remote w1 = remote w"
      "counters w1 = (counters w)(mRedisRetry r := counters w (mRedisRetry r) + 1)"
      "clock w1 = clock w + max 0 (retryPeriod r)"
      by (simp_all add: w1_def retry_body_eq)
    from Suc.prems Inl b have "retry_iter r c m res1 w1 = (res', w')" by simp
    from Suc.IH [OF this] obtain k where k: "k \<le> m"
      "issued w' = issued w1 @ replicate k c"
      "remote w' = remote w1"
      "counters w' = (counters w1)(mRedisRetry r := counters w1 (mRedisRetry r) + int k)"
      "clock w' = clock w1 + int k * max 0 (retryPeriod r)"
      "k = 0 \<longrightarrow> res' = res1"
      "0 < k \<longrightarrow> isl res1 \<and> res' = remote w1 (length (issued w1) + k - 1) c"
      "\<forall>j. Suc j < k \<longrightarrow> isl (remote w1 (length (issued w1) + j) c)"
      "k < m \<longrightarrow> \<not> isl res'"
      by blast
    have 1: "issued w' = issued w @ replicate (Suc k) c"
      using k(2) w1(1) by (simp add: replicate_append_same)
    have 2: "counters w' = (counters w)(mRedisRetry r := counters w (mRedisRetry r) + int (Suc k))"
      using k(4) w1(3) by (simp add: fun_eq_iff)
    have 3: "clock w' = clock w + int (Suc k) * max 0 (retryPeriod r)"
      using k(5) w1(4) by (simp add: algebra_simps)
    have 4: "res' = remote w (length (issued w) + Suc k - 1) c"
      using k(6,7) w1(1,2) by (cases "k = 0") (simp_all add: res1_def)
    have 5: "\<forall>j. Suc j < Suc k \<longrightarrow> isl (remote w (length (issued w) + j) c)"
    proof (intro allI impI)
      fix j assume j: "Suc j < Suc k"
      show "isl (remote w (length (issued w) + j) c)"
      proof (cases j)
        case 0
        then show ?thesis using j k(7) by (simp add: res1_def)
      next
        case (Suc j')
        then show ?thesis using j k(8) w1(1,2) by simp
      qed
    qed
    show ?thesis
      using k(1,3,9) 1 2 3 4 5 Inl w1(2)
      by (intro exI [of _ "Suc k"]) simp
  qed
qed

lemma retry_iter_frame:
  "retry_iter r c m res w = (res', w') \<Longrightarrow>
   w' = w\<lparr>issued := issued w', clock := clock w', counters := counters w', logs := logs w'\<rparr>"
proof (induction m arbitrary: res w)
  case 0
  then show ?case by simp
next
  case (Suc m)
  show ?case
  proof (cases res)
    case (Inr n)
    with Suc.prems show ?thesis by simp
  next
    case (Inl err)
    define w1 where "w1 = w\<lparr>logs := logs w @ [LogErrorf ''SCard command failed: %v\<newline>'' err],
        clock := clock w + max 0 (retryPeriod r),
        counters := (counters w)(mRedisRetry r := counters w (mRedisRetry r) + 1),
        issued := issued w @ [c]\<rparr>"
    from Suc.prems Inl have "retry_iter r c m (remote w (length (issued w)) c) w1 = (res', w')"
      by (simp add: retry_body_eq w1_def)
    from Suc.IH [OF this]
    have "w' = w1\<lparr>issued := issued w', clock := clock w', counters := counters w', logs := logs w'\<rparr>" .
    also have "\<dots> = w\<lparr>issued := issued w', clock := clock w', counters := counters w', logs := logs w'\<rparr>"
      by (simp add: w1_def)
    finally show ?thesis .
  qed
qed

lemma run_command_Some:
  assumes "run_command r c w = Some (out, w')"
  shows "\<exists>m res. retry_iter r c m (remote w (length (issued w)) c) (w\<lparr>issued := issued w @ [c]\<rparr>) = (res, w')
           \<and> out = (case res of Inl e \<Rightarrow> Inl e | Inr v \<Rightarrow> Inr (AppendInt10 [] v))"
proof -
  let ?w1 = "w\<lparr>issued := issued w @ [c]\<rparr>"
  let ?res = "remote w (length (issued w)) c"
  from assms obtain y where y: "retry_loop r c 0 ?res ?w1 = Some y"
    by (auto simp: run_command_def client_call_def split: option.splits)
  then obtain m where m: "y = retry_iter r c m ?res ?w1" using retry_loop_Some_iter by blast
  obtain res w2 where rw: "y = (res, w2)" by (cases y)
  from assms y rw have "w2 = w'" "out = (case res of Inl e \<Rightarrow> Inl e | Inr v \<Rightarrow> Inr (AppendInt10 [] v))"
    by (auto simp: run_command_def client_call_def split: sum.splits)
  then show ?thesis using m rw by (intro exI [of _ m] exI [of _ res]) simp
qed

lemma run_command_eq:
  "run_command r c w =
     (case retry_loop r c 0 (remote w (length (issued w)) c) (w\<lparr>issued := issued w @ [c]\<rparr>) of
        None \<Rightarrow> None
      | Some (Inl err, w') \<Rightarrow> Some (Inl err, w')
      | Some (Inr n, w') \<Rightarrow> Some (Inr (AppendInt10 [] n), w'))"
  by (simp add: run_command_def client_call_def)

lemma run_command_total:
  assumes "sint (Retries (Redis (conf r))) < 2 ^ 63 - 1"
  shows "\<exists>out w'. run_command r c w = Some (out, w')"
proof -
  have "\<exists>y. retry_loop r c 0 (remote w (length (issued w)) c) (w\<lparr>issued := issued w @ [c]\<rparr>) = Some y"
    using retry_loop_budget [OF assms refl] by blast
  then show ?thesis
    by (auto simp: run_command_eq split: sum.splits prod.splits)
qed

lemma run_command_shape:
  assumes "run_command r c w = Some (out, w')"
  shows "\<exists>a>0.
     issued w' = issued w @ replicate a c \<and>
     remote w' = remote w \<and>
     counters w' = (counters w)(mRedisRetry r := counters w (mRedisRetry r) + int (a - 1)) \<and>
     clock w' = clock w + int (a - 1) * max 0 (retryPeriod r) \<and>
     (\<forall>j. Suc j < a \<longrightarrow> isl (remote w (length (issued w) + j) c)) \<and>
     out = (case remote w (length (issued w) + a - 1) c of
              Inl e \<Rightarrow> Inl e | Inr v \<Rightarrow> Inr (AppendInt10 [] v))"
proof -
  let ?w1 = "w\<lparr>issued := issued w @ [c]\<rparr>"
  let ?n = "length (issued w)"
  from run_command_Some [OF assms] obtain m res where
    it: "retry_iter r c m (remote w ?n c) ?w1 = (res, w')" and
    out: "out = (case res of Inl e \<Rightarrow> Inl e | Inr v \<Rightarrow> Inr (AppendInt10 [] v))"
    by blast
  from retry_iter_shape [OF it] obtain k where k:
    "issued w' = issued ?w1 @ replicate k c"
    "remote w' = remote ?w1"
    "counters w' = (counters ?w1)(mRedisRetry r := counters ?w1 (mRedisRetry r) + int k)"
    "clock w' = clock ?w1 + int k * max 0 (retryPeriod r)"
    "k = 0 \<longrightarrow> res = remote w ?n c"
    "0 < k \<longrightarrow> isl (remote w ?n c) \<and> res = remote ?w1 (length (issued ?w1) + k - 1) c"
    "\<forall>j. Suc j < k \<longrightarrow> isl (remote ?w1 (length (issued ?w1) + j) c)"
    by (elim exE conjE) (rule that, assumption+)
  have 1: "issued w' = issued w @ replicate (Suc k) c"
    using k(1) by (simp add: replicate_append_same)
  have 2: "res = remote w (?n + Suc k - 1) c"
    using k(5,6) by (cases "k = 0") simp_all
  have 3: "\<forall>j. Suc j < Suc k \<longrightarrow> isl (remote w (?n + j) c)"
  proof (intro allI impI)
    fix j assume j: "Suc j < Suc k"
    show "isl (remote w (?n + j) c)"
    proof (cases j)
      case 0
      then show ?thesis using j k(6) by simp
    next
      case (Suc j')
      then show ?thesis using j k(7) by simp
    qed
  qed
  show ?thesis
    using 1 2 3 k(2,3,4) out
    by (intro exI [of _ "Suc k"]) simp
qed

lemma run_command_frame:
  assumes "run_command r c w = Some (out, w')"
  shows "w' = w\<lparr>issued := issued w', clock := clock w', counters := counters w', logs := logs w'\<rparr>"
proof -
  from run_command_Some [OF assms] obtain m res where
    it: "retry_iter r c m (remote w (length (issued w)) c) (w\<lparr>issued := issued w @ [c]\<rparr>) = (res, w')"
    by blast
  from retry_iter_frame [OF it] show ?thesis by simp
qed

lemma run_command_all_fail:
  assumes R: "sint (Retries (Redis (conf r))) < 2 ^ 63 - 1"
    and fails: "\<forall>n\<ge>length (issued w). isl (remote w n c)"
  shows "\<exists>e w'. run_command r c w = Some (Inl e, w') \<and>
           length (issued w') = length (issued w) + 1 + nat (sint (Retries (Redis (conf r))) + 1)"
proof -
  let ?w1 = "w\<lparr>issued := issued w @ [c]\<rparr>"
  let ?n = "length (issued w)"
  let ?m = "nat (sint (Retries (Redis (conf r))) + 1)"
  obtain res w' where it: "retry_iter r c ?m (remote w ?n c) ?w1 = (res, w')"
    by (cases "retry_iter r c ?m (remote w ?n c) ?w1")
  have loop: "retry_loop r c 0 (remote w ?n c) ?w1 = Some (res, w')"
    using retry_loop_budget [OF R, of ?m 0 c "remote w ?n c" ?w1] it by simp
  from retry_iter_shape [OF it] obtain k where k: "k \<le> ?m"
    "issued w' = issued ?w1 @ replicate k c"
    "k = 0 \<longrightarrow> res = remote w ?n c"
    "0 < k \<longrightarrow> isl (remote w ?n c) \<and> res = remote ?w1 (length (issued ?w1) + k - 1) c"
    "k < ?m \<longrightarrow> \<not> isl res"
    by (elim exE conjE) (rule that, assumption+)
  have isl: "isl res"
    using k(3,4) fails by (cases "k = 0") simp_all
  then have "k = ?m" using k(1,5) by (cases "k < ?m") simp_all
  then have len: "length (issued w') = ?n + 1 + ?m" using k(2) by simp
  from isl obtain e where "res = Inl e" by (cases res) simp_all
  then have "run_command r c w = Some (Inl e, w')"
    using loop by (simp add: run_command_eq)
  then show ?thesis using len by blast
qed

lemma run_command_recovers:
  assumes k: "int k \<le> sint (Retries (Redis (conf r)))"
    and fails: "\<forall>j<k. isl (remote w (length (issued w) + j) c)"
    and succ: "remote w (length (issued w) + k) c = Inr v"
  shows "\<exists>w'. run_command r c w = Some (Inr (AppendInt10 [] v), w') \<and>
           counters w' (mRedisRetry r) = counters w (mRedisRetry r) + int k \<and>
           length (issued w') = length (issued w) + k + 1"
proof -
  let ?w1 = "w\<lparr>issued := issued w @ [c]\<rparr>"
  let ?n = "length (issued w)"
  obtain res w' where it: "retry_iter r c k (remote w ?n c) ?w1 = (res, w')"
    by (cases "retry_iter r c k (remote w ?n c) ?w1")
  from retry_iter_shape [OF it] obtain a where a: "a \<le> k"
    "issued w' = issued ?w1 @ replicate a c"
    "counters w' = (counters ?w1)(mRedisRetry r := counters ?w1 (mRedisRetry r) + int a)"
    "a = 0 \<longrightarrow> res = remote w ?n c"
    "0 < a \<longrightarrow> isl (remote w ?n c) \<and> res = remote ?w1 (length (issued ?w1) + a - 1) c"
    "a < k \<longrightarrow> \<not> isl res"
    by (elim exE conjE) (rule that, assumption+)
  have res: "res = remote w (?n + a) c"
    using a(4,5) by (cases "a = 0") simp_all
  have "a = k"
  proof (rule ccontr)
    assume "a \<noteq> k"
    then have "a < k" using a(1) by simp
    then show False using a(6) res fails by simp
  qed
  then have r: "res = Inr v" using res succ by simp
  have "retry_loop r c 0 (remote w ?n c) ?w1 = Some (retry_iter r c k (remote w ?n c) ?w1)"
    using k it r by (intro retry_loop_success) simp_all
  then have "run_command r c w = Some (Inr (AppendInt10 [] v), w')"
    using it r by (simp add: run_command_eq)
  moreover have "counters w' (mRedisRetry r) = counters w (mRedisRetry r) + int k"
    using a(3) \<open>a = k\<close> by simp
  moreover have "length (issued w') = ?n + k + 1"
    using a(2) \<open>a = k\<close> by simp
  ultimately show ?thesis by blast
qed

section \<open>The iteration over parts: auxiliary facts\<close>

lemma apply_operator_total:
  "sint (Retries (Redis (conf r))) < 2 ^ 63 - 1 \<Longrightarrow>
   \<exists>out w'. apply_operator opr r k v w = Some (out, w')"
  unfolding apply_operator_def by (rule run_command_total)

lemma apply_operator_frame:
  assumes "apply_operator opr r k v w = Some (out, w')"
  shows "arena w' = arena w" "next_cell w' = next_cell w" "spans w' = spans w"
    "closed w' = closed w" "remote w' = remote w"
    "\<And>n. n \<noteq> mRedisRetry r \<Longrightarrow> counters w' n = counters w n"
proof -
  from assms have rc: "run_command r (operator_command opr k v) w = Some (out, w')"
    by (simp add: apply_operator_def)
  from run_command_frame [OF rc]
  have eq: "w' = w\<lparr>issued := issued w', clock := clock w', counters := counters w', logs := logs w'\<rparr>" .
  show "arena w' = arena w" by (subst eq) simp
  show "next_cell w' = next_cell w" by (subst eq) simp
  show "spans w' = spans w" by (subst eq) simp
  show "closed w' = closed w" by (subst eq) simp
  from run_command_shape [OF rc] obtain a where
    "remote w' = remote w"
    "counters w' = (counters w)(mRedisRetry r := counters w (mRedisRetry r) + int (a - 1))"
    by (elim exE conjE) (rule that, assumption+)
  then show "remote w' = remote w" "\<And>n. n \<noteq> mRedisRetry r \<Longrightarrow> counters w' n = counters w n"
    by simp_all
qed

lemma proc_result:
  assumes R: "sint (Retries (Redis (conf r))) < 2 ^ 63 - 1"
    and ne: "mErr r \<noteq> mRedisRetry r"
  obtains (fail) e wa w' where
      "apply_operator (operator r) r (key r i (contents m w)) (payload (arena w h)) w = Some (Inl e, wa)"
      "proc r m i h w = Some (Some e, w')"
      "arena w' = arena w" "counters w' (mErr r) = counters w (mErr r) + 1"
      "spans w' = spans w" "next_cell w' = next_cell w"
  | (ok) b wa w' where
      "apply_operator (operator r) r (key r i (contents m w)) (payload (arena w h)) w = Some (Inr b, wa)"
      "proc r m i h w = Some (None, w')"
      "arena w' = (arena w)(h := (arena w h)\<lparr>payload := b\<rparr>)"
      "counters w' (mErr r) = counters w (mErr r)"
      "spans w' = spans w" "next_cell w' = next_cell w"
proof -
  let ?k = "key r i (contents m w)"
  from apply_operator_total [OF R] obtain out wa where
    ao: "apply_operator (operator r) r ?k (payload (arena w h)) w = Some (out, wa)" by blast
  note fr = apply_operator_frame [OF ao]
  show ?thesis
  proof (cases out)
    case (Inl e)
    let ?w' = "log_Debugf ''Operator failed for key '%s': %v\<newline>'' ?k e (Incr (mErr r) 1 wa)"
    have "proc r m i h w = Some (Some e, ?w')"
      using ao Inl by (simp add: proc_def part_Get_def Let_def)
    moreover have "arena ?w' = arena w" "spans ?w' = spans w" "next_cell ?w' = next_cell w"
      using fr(1,2,3) by (simp_all add: log_Debugf_def Incr_def)
    moreover have "counters ?w' (mErr r) = counters w (mErr r) + 1"
      using fr(6) [OF ne] by (simp add: log_Debugf_def Incr_def)
    ultimately show ?thesis using fail ao Inl by blast
  next
    case (Inr b)
    let ?w' = "part_Set h b wa"
    have "proc r m i h w = Some (None, ?w')"
      using ao Inr by (simp add: proc_def part_Get_def Let_def)
    moreover have "arena ?w' = (arena w)(h := (arena w h)\<lparr>payload := b\<rparr>)"
      "spans ?w' = spans w" "next_cell ?w' = next_cell w"
      using fr(1,2,3) by (simp_all add: part_Set_def)
    moreover have "counters ?w' (mErr r) = counters w (mErr r)"
      using fr(6) [OF ne] by (simp add: part_Set_def)
    ultimately show ?thesis using ok ao Inr by blast
  qed
qed

lemma iterate_step:
  assumes R: "sint (Retries (Redis (conf r))) < 2 ^ 63 - 1"
    and ne: "mErr r \<noteq> mRedisRetry r"
  obtains out wa w4 where
    "operator_call r m i (start_span name i w) = Some (out, wa)"
    "arena w4 = (arena w)(m ! i :=
        (case out of Inl e \<Rightarrow> (arena w (m ! i))\<lparr>failed := Some e\<rparr>
                   | Inr b \<Rightarrow> (arena w (m ! i))\<lparr>payload := b\<rparr>))"
    "counters w4 (mErr r) = counters w (mErr r) + (if isl out then 1 else 0)"
    "spans w4 = spans w @ [StartSpan name i, FinishSpan name i]"
    "next_cell w4 = next_cell w"
    "\<forall>rest. iterate_parts name (i # rest) m (proc r m) w =
       (case iterate_parts name rest m (proc r m) w4 of
          None \<Rightarrow> None
        | Some (any, w') \<Rightarrow> Some (isl out \<or> any, w'))"
proof -
  let ?w1 = "start_span name i w"
  have w1: "arena ?w1 = arena w" "counters ?w1 = counters w"
    "spans ?w1 = spans w @ [StartSpan name i]" "next_cell ?w1 = next_cell w"
    by (simp_all add: start_span_def)
  from R ne show ?thesis
  proof (cases rule: proc_result [where i = i and m = m and w = ?w1 and h = "m ! i"])
    case (fail e wa w2)
    let ?w4 = "finish_span name i (FlagErr (m ! i) e w2)"
    have a: "arena ?w4 = (arena w)(m ! i := (arena w (m ! i))\<lparr>failed := Some e\<rparr>)"
      using fail(3) w1(1) by (simp add: finish_span_def FlagErr_def)
    have b: "counters ?w4 (mErr r) = counters w (mErr r) + 1"
      using fail(4) w1(2) by (simp add: finish_span_def FlagErr_def)
    have c: "spans ?w4 = spans w @ [StartSpan name i, FinishSpan name i]"
      using fail(5) w1(3) by (simp add: finish_span_def FlagErr_def)
    have d: "next_cell ?w4 = next_cell w"
      using fail(6) w1(4) by (simp add: finish_span_def FlagErr_def)
    have e: "operator_call r m i ?w1 = Some (Inl e, wa)"
      using fail(1) by (simp add: operator_call_def part_Get_def)
    have f: "\<forall>rest. iterate_parts name (i # rest) m (proc r m) w =
       (case iterate_parts name rest m (proc r m) ?w4 of
          None \<Rightarrow> None
        | Some (any, w') \<Rightarrow> Some (True \<or> any, w'))"
      using fail(2) by (simp add: Let_def split: option.splits)
    show ?thesis
      by (rule that [of "Inl e" wa ?w4]) (simp_all only: a b c d e f sum.case sum.disc if_True simp_thms)
  next
    case (ok b' wa w2)
    let ?w4 = "finish_span name i w2"
    have a: "arena ?w4 = (arena w)(m ! i := (arena w (m ! i))\<lparr>payload := b'\<rparr>)"
      using ok(3) w1(1) by (simp add: finish_span_def)
    have b: "counters ?w4 (mErr r) = counters w (mErr r) + 0"
      using ok(4) w1(2) by (simp add: finish_span_def)
    have c: "spans ?w4 = spans w @ [StartSpan name i, FinishSpan name i]"
      using ok(5) w1(3) by (simp add: finish_span_def)
    have d: "next_cell ?w4 = next_cell w"
      using ok(6) w1(4) by (simp add: finish_span_def)
    have e: "operator_call r m i ?w1 = Some (Inr b', wa)"
      using ok(1) by (simp add: operator_call_def part_Get_def)
    have f: "\<forall>rest. iterate_parts name (i # rest) m (proc r m) w =
       (case iterate_parts name rest m (proc r m) ?w4 of
          None \<Rightarrow> None
        | Some (any, w') \<Rightarrow> Some (False \<or> any, w'))"
      using ok(2) by (simp add: Let_def split: option.splits)
    show ?thesis
      by (rule that [of "Inr b'" wa ?w4]) (simp_all only: a b c d e f sum.case sum.disc if_False simp_thms)
  qed
qed

lemma iterate_proc:
  assumes R: "sint (Retries (Redis (conf r))) < 2 ^ 63 - 1"
    and ne: "mErr r \<noteq> mRedisRetry r"
    and dm: "distinct m"
  shows "distinct ts \<Longrightarrow> \<forall>i\<in>set ts. i < length m \<Longrightarrow>
    \<exists>any w' outs.
      iterate_parts name ts m (proc r m) w = Some (any, w') \<and>
      length outs = length ts \<and>
      counters w' (mErr r) = counters w (mErr r) + int (length (filter isl outs)) \<and>
      spans w' = spans w @ concat (map (\<lambda>i. [StartSpan name i, FinishSpan name i]) ts) \<and>
      next_cell w' = next_cell w \<and>
      (\<forall>h. h \<notin> (!) m ` set ts \<longrightarrow> arena w' h = arena w h) \<and>
      (\<forall>j<length ts.
          (\<exists>any wj wa.
              iterate_parts name (take j ts) m (proc r m) w = Some (any, wj) \<and>
              operator_call r m (ts ! j) (start_span name (ts ! j) wj) = Some (outs ! j, wa) \<and>
              arena wj (m ! (ts ! j)) = arena w (m ! (ts ! j))) \<and>
          arena w' (m ! (ts ! j)) =
            (case outs ! j of
               Inl e \<Rightarrow> (arena w (m ! (ts ! j)))\<lparr>failed := Some e\<rparr>
             | Inr b \<Rightarrow> (arena w (m ! (ts ! j)))\<lparr>payload := b\<rparr>))"
proof (induction ts arbitrary: w)
  case Nil
  show ?case by (intro exI [of _ False] exI [of _ w] exI [of _ "[]"]) simp
next
  case (Cons i rest)
  from Cons.prems have di: "i \<notin> set rest" "distinct rest" and
    lt: "i < length m" "\<forall>k\<in>set rest. k < length m" by simp_all
  obtain out wa0 w4 where s:
    "operator_call r m i (start_span name i w) = Some (out, wa0)"
    "arena w4 = (arena w)(m ! i :=
        (case out of Inl e \<Rightarrow> (arena w (m ! i))\<lparr>failed := Some e\<rparr>
                   | Inr b \<Rightarrow> (arena w (m ! i))\<lparr>payload := b\<rparr>))"
    "counters w4 (mErr r) = counters w (mErr r) + (if isl out then 1 else 0)"
    "spans w4 = spans w @ [StartSpan name i, FinishSpan name i]"
    "next_cell w4 = next_cell w"
    "\<forall>rest. iterate_parts name (i # rest) m (proc r m) w =
       (case iterate_parts name rest m (proc r m) w4 of
          None \<Rightarrow> None
        | Some (any, w') \<Rightarrow> Some (isl out \<or> any, w'))"
    by (rule iterate_step [where m = m and i = i and name = name and w = w, OF R ne])
  from Cons.IH [OF di(2) lt(2), of w4] obtain any w' outs where ih:
    "iterate_parts name rest m (proc r m) w4 = Some (any, w')"
    "length outs = length rest"
    "counters w' (mErr r) = counters w4 (mErr r) + int (length (filter isl outs))"
    "spans w' = spans w4 @ concat (map (\<lambda>i. [StartSpan name i, FinishSpan name i]) rest)"
    "next_cell w' = next_cell w4"
    "\<forall>h. h \<notin> (!) m ` set rest \<longrightarrow> arena w' h = arena w4 h"
    "\<forall>j<length rest.
          (\<exists>any wj wa.
              iterate_parts name (take j rest) m (proc r m) w4 = Some (any, wj) \<and>
              operator_call r m (rest ! j) (start_span name (rest ! j) wj) = Some (outs ! j, wa) \<and>
              arena wj (m ! (rest ! j)) = arena w4 (m ! (rest ! j))) \<and>
          arena w' (m ! (rest ! j)) =
            (case outs ! j of
               Inl e \<Rightarrow> (arena w4 (m ! (rest ! j)))\<lparr>failed := Some e\<rparr>
             | Inr b \<Rightarrow> (arena w4 (m ! (rest ! j)))\<lparr>payload := b\<rparr>)"
    by (elim exE conjE) (rule that, assumption+)
  have other: "m ! k \<noteq> m ! i" if "k \<in> set rest" for k
    using that di(1) lt dm by (auto simp: nth_eq_iff_index_eq)
  have notin: "m ! i \<notin> (!) m ` set rest"
  proof
    assume "m ! i \<in> (!) m ` set rest"
    then obtain k where "k \<in> set rest" "m ! k = m ! i" by (auto simp: image_iff)
    then show False using other [of k] by simp
  qed
  have 1: "iterate_parts name (i # rest) m (proc r m) w = Some (isl out \<or> any, w')"
    using s(6) [rule_format, of rest] ih(1) by simp
  have 2: "length (out # outs) = length (i # rest)"
    using ih(2) by simp
  have 3: "counters w' (mErr r) = counters w (mErr r) + int (length (filter isl (out # outs)))"
    using ih(3) s(3) by simp
  have 4: "spans w' = spans w @ concat (map (\<lambda>i. [StartSpan name i, FinishSpan name i]) (i # rest))"
    using ih(4) s(4) by simp
  have 5: "next_cell w' = next_cell w"
    using ih(5) s(5) by simp
  have 6: "\<forall>h. h \<notin> (!) m ` set (i # rest) \<longrightarrow> arena w' h = arena w h"
    using ih(6) s(2) by simp
  have 7: "\<forall>j<length (i # rest).
          (\<exists>any wj wa.
              iterate_parts name (take j (i # rest)) m (proc r m) w = Some (any, wj) \<and>
              operator_call r m ((i # rest) ! j) (start_span name ((i # rest) ! j) wj) =
                Some ((out # outs) ! j, wa) \<and>
              arena wj (m ! ((i # rest) ! j)) = arena w (m ! ((i # rest) ! j))) \<and>
          arena w' (m ! ((i # rest) ! j)) =
            (case (out # outs) ! j of
               Inl e \<Rightarrow> (arena w (m ! ((i # rest) ! j)))\<lparr>failed := Some e\<rparr>
             | Inr b \<Rightarrow> (arena w (m ! ((i # rest) ! j)))\<lparr>payload := b\<rparr>)"
  proof (intro allI impI)
    fix j assume j: "j < length (i # rest)"
    show "(\<exists>any wj wa.
              iterate_parts name (take j (i # rest)) m (proc r m) w = Some (any, wj) \<and>
              operator_call r m ((i # rest) ! j) (start_span name ((i # rest) ! j) wj) =
                Some ((out # outs) ! j, wa) \<and>
              arena wj (m ! ((i # rest) ! j)) = arena w (m ! ((i # rest) ! j))) \<and>
          arena w' (m ! ((i # rest) ! j)) =
            (case (out # outs) ! j of
               Inl e \<Rightarrow> (arena w (m ! ((i # rest) ! j)))\<lparr>failed := Some e\<rparr>
             | Inr b \<Rightarrow> (arena w (m ! ((i # rest) ! j)))\<lparr>payload := b\<rparr>)"
    proof (cases j)
      case 0
      have run: "\<exists>any wj wa.
              iterate_parts name (take 0 (i # rest)) m (proc r m) w = Some (any, wj) \<and>
              operator_call r m ((i # rest) ! 0) (start_span name ((i # rest) ! 0) wj) =
                Some ((out # outs) ! 0, wa) \<and>
              arena wj (m ! ((i # rest) ! 0)) = arena w (m ! ((i # rest) ! 0))"
        using s(1) by (intro exI [of _ False] exI [of _ w] exI [of _ wa0]) simp
      have "arena w' (m ! i) = arena w4 (m ! i)" using ih(6) notin by simp
      then have "arena w' (m ! ((i # rest) ! 0)) =
            (case (out # outs) ! 0 of
               Inl e \<Rightarrow> (arena w (m ! ((i # rest) ! 0)))\<lparr>failed := Some e\<rparr>
             | Inr b \<Rightarrow> (arena w (m ! ((i # rest) ! 0)))\<lparr>payload := b\<rparr>)"
        using s(2) by (simp cong: sum.case_cong)
      with run show ?thesis unfolding 0 by (rule conjI)
    next
      case (Suc j')
      then have j': "j' < length rest" using j by simp
      then have "rest ! j' \<in> set rest" by simp
      then have eq: "arena w4 (m ! (rest ! j')) = arena w (m ! (rest ! j'))"
        using other s(2) by simp
      from ih(7) j' obtain any' wj wa where p:
        "iterate_parts name (take j' rest) m (proc r m) w4 = Some (any', wj)"
        "operator_call r m (rest ! j') (start_span name (rest ! j') wj) = Some (outs ! j', wa)"
        "arena wj (m ! (rest ! j')) = arena w4 (m ! (rest ! j'))"
        and q: "arena w' (m ! (rest ! j')) =
            (case outs ! j' of
               Inl e \<Rightarrow> (arena w4 (m ! (rest ! j')))\<lparr>failed := Some e\<rparr>
             | Inr b \<Rightarrow> (arena w4 (m ! (rest ! j')))\<lparr>payload := b\<rparr>)"
        by blast
      have pre: "iterate_parts name (take (Suc j') (i # rest)) m (proc r m) w = Some (isl out \<or> any', wj)"
        using s(6) [rule_format, of "take j' rest"] p(1) by simp
      have run: "\<exists>any wj wa.
              iterate_parts name (take (Suc j') (i # rest)) m (proc r m) w = Some (any, wj) \<and>
              operator_call r m ((i # rest) ! Suc j') (start_span name ((i # rest) ! Suc j') wj) =
                Some ((out # outs) ! Suc j', wa) \<and>
              arena wj (m ! ((i # rest) ! Suc j')) = arena w (m ! ((i # rest) ! Suc j'))"
        using pre p(2,3) eq
        by (intro exI [of _ "isl out \<or> any'"] exI [of _ wj] exI [of _ wa]) simp
      have "arena w' (m ! ((i # rest) ! Suc j')) =
            (case (out # outs) ! Suc j' of
               Inl e \<Rightarrow> (arena w (m ! ((i # rest) ! Suc j')))\<lparr>failed := Some e\<rparr>
             | Inr b \<Rightarrow> (arena w (m ! ((i # rest) ! Suc j')))\<lparr>payload := b\<rparr>)"
        using q unfolding eq by (simp cong: sum.case_cong)
      with run show ?thesis unfolding Suc by (rule conjI)
    qed
  qed
  show ?case
    by (intro exI [of _ "isl out \<or> any"] exI [of _ w'] exI [of _ "out # outs"] conjI)
      (fact 1 2 3 4 5 6 7)+
qed

lemma targets_distinct: "distinct (targets ps n)"
  by (simp add: targets_def)

lemma targets_bound: "\<forall>i\<in>set (targets ps n). i < n"
  by (simp add: targets_def)

lemma Copy_msg_eq:
  "Copy_msg msg w =
     ([next_cell w ..< next_cell w + length msg],
      w\<lparr>arena := (\<lambda>a. if next_cell w \<le> a \<and> a < next_cell w + length msg
                        then arena w (msg ! (a - next_cell w)) else arena w a),
        next_cell := next_cell w + length msg\<rparr>)"
  by (simp add: Copy_msg_def Let_def)

lemma NewRedis_fields:
  assumes "NewRedis env cnf = Inr r"
  shows "conf r = cnf" "parts r = Parts (Redis cnf)"
    "mCount r = ''count''" "mErr r = ''error''" "mSent r = ''sent''"
    "mBatchSent r = ''batch.sent''" "mRedisRetry r = ''redis.retry''"
  using assms by (auto simp: NewRedis_def Let_def split: sum.splits)

lemma proc_frame:
  assumes "proc r m i h w = Some (err, w')"
  shows "\<forall>h'. h' \<noteq> h \<longrightarrow> arena w' h' = arena w h'"
proof -
  let ?k = "key r i (contents m w)"
  from assms obtain out wa where
    ao: "apply_operator (operator r) r ?k (part_Get h w) w = Some (out, wa)"
    by (auto simp: proc_def Let_def split: option.splits)
  note fr = apply_operator_frame(1) [OF ao]
  show ?thesis
  proof (cases out)
    case (Inl e)
    with assms ao have "w' = log_Debugf ''Operator failed for key '%s': %v\<newline>'' ?k e (Incr (mErr r) 1 wa)"
      by (simp add: proc_def Let_def)
    then show ?thesis using fr by (simp add: log_Debugf_def Incr_def)
  next
    case (Inr b)
    with assms ao have "w' = part_Set h b wa"
      by (simp add: proc_def Let_def)
    then show ?thesis using fr by (simp add: part_Set_def)
  qed
qed

lemma iterate_frame:
  "iterate_parts name ts m (proc r m) w = Some (any, w') \<Longrightarrow> \<forall>i\<in>set ts. i < length m \<Longrightarrow>
   \<forall>h. h \<notin> set m \<longrightarrow> arena w' h = arena w h"
proof (induction ts arbitrary: w any)
  case Nil
  then show ?case by simp
next
  case (Cons i rest)
  let ?w1 = "start_span name i w"
  from Cons.prems(1) obtain err w2 where p: "proc r m i (m ! i) ?w1 = Some (err, w2)"
    by (auto simp: Let_def split: option.splits)
  define w4 where "w4 = finish_span name i (case err of None \<Rightarrow> w2 | Some e \<Rightarrow> FlagErr (m ! i) e w2)"
  from Cons.prems(1) p obtain any' where
    r: "iterate_parts name rest m (proc r m) w4 = Some (any', w')"
    by (auto simp: Let_def w4_def split: option.splits)
  from Cons.prems(2) have mi: "m ! i \<in> set m" and lt: "\<forall>k\<in>set rest. k < length m" by simp_all
  have "\<forall>h. h \<noteq> m ! i \<longrightarrow> arena w4 h = arena w h"
    using proc_frame [OF p]
    by (cases err) (simp_all add: w4_def finish_span_def FlagErr_def start_span_def)
  moreover have "\<forall>h. h \<notin> set m \<longrightarrow> arena w' h = arena w4 h"
    using Cons.IH [OF r lt] .
  ultimately show ?case using mi by metis
qed

lemma iterate_total:
  assumes R: "sint (Retries (Redis (conf r))) < 2 ^ 63 - 1"
  shows "\<exists>y. iterate_parts name ts m (proc r m) w = Some y"
proof (induction ts arbitrary: w)
  case Nil
  show ?case by (rule exI [of _ "(False, w)"]) simp
next
  case (Cons i rest)
  let ?w1 = "start_span name i w"
  from apply_operator_total [OF R] obtain out wa where
    "apply_operator (operator r) r (key r i (contents m ?w1)) (part_Get (m ! i) ?w1) ?w1 = Some (out, wa)"
    by blast
  then obtain err w2 where p: "proc r m i (m ! i) ?w1 = Some (err, w2)"
    by (cases out) (simp_all add: proc_def Let_def)
  define w4 where "w4 = finish_span name i (case err of None \<Rightarrow> w2 | Some e \<Rightarrow> FlagErr (m ! i) e w2)"
  from Cons.IH [of w4] obtain y where "iterate_parts name rest m (proc r m) w4 = Some y" ..
  then show ?case using p by (cases y) (simp add: Let_def w4_def)
qed

lemma apply_operator_error_is_remote:
  assumes "apply_operator opr r k v w = Some (Inl e, w')"
  shows "\<exists>n. remote w n (operator_command opr k v) = Inl e"
proof -
  from assms have "run_command r (operator_command opr k v) w = Some (Inl e, w')"
    by (simp add: apply_operator_def)
  from run_command_shape [OF this] obtain a where
    "(Inl e :: error + bytes) = (case remote w (length (issued w) + a - 1) (operator_command opr k v) of
              Inl e \<Rightarrow> Inl e | Inr n \<Rightarrow> Inr (AppendInt10 [] n))"
    by (elim exE conjE) (rule that, assumption+)
  then have "remote w (length (issued w) + a - 1) (operator_command opr k v) = Inl e"
    by (simp split: sum.splits)
  then show ?thesis ..
qed

section \<open>The example processor\<close>

lemma NewRedis_demo: "NewRedis demo_env demo_conf = Inr demo_proc"
  by (simp add: NewRedis_def demo_env_def demo_conf_def demo_proc_def NewRedisConfig_def
      getRedisOperator_def newRedisSCardOperator_def)

lemma demo_Retries: "Retries (Redis (conf demo_proc)) = 3"
  by (simp add: demo_proc_def demo_conf_def NewRedisConfig_def)

lemmas demo_simps = run_command_eq retry_loop.simps retry_body_eq world0_def
  demo_proc_def demo_conf_def NewRedisConfig_def fun_eq_iff word_sle_eq apply_operator_def

lemma demo_offline_scard:
  "apply_operator SCardOperator demo_proc ''s1'' [] (world0 offline) =
     Some (Inl (External ''connection refused''),
           (world0 offline)
           \<lparr>issued := [SCard ''s1'', SCard ''s1'', SCard ''s1'', SCard ''s1'', SCard ''s1''],
             clock := 2000000000,
             counters := (\<lambda>_. 0)(''redis.retry'' := 4),
             logs := [LogErrorf ''SCard command failed: %v\<newline>'' (External ''connection refused''),
                      LogErrorf ''SCard command failed: %v\<newline>'' (External ''connection refused''),
                      LogErrorf ''SCard command failed: %v\<newline>'' (External ''connection refused''),
                      LogErrorf ''SCard command failed: %v\<newline>'' (External ''connection refused'')]\<rparr>)"
  by (simp add: demo_simps offline_def)

lemmas batch_simps = ProcessMessage_def Copy_msg_def IteratePartsWithSpan_def targets_def Len_def
  proc_def contents_def part_Get_def part_Set_def FlagErr_def start_span_def finish_span_def
  Incr_def log_Debugf_def TypeRedis_def two_parts_def AppendInt10_def digits10.simps Let_def

lemma demo_batch_s1_down:
  "ProcessMessage demo_proc [0, 1] (two_parts s1_down) =
     Some (([[2, 3]], None),
       (two_parts s1_down)
       \<lparr>issued := [SCard ''s1'', SCard ''s1'', SCard ''s1'', SCard ''s1'', SCard ''s1'', SCard ''s2''],
         clock := 2000000000,
         counters := (\<lambda>_. 0)(''count'' := 1, ''error'' := 1, ''sent'' := 2, ''batch.sent'' := 1,
                              ''redis.retry'' := 4),
         logs := [LogErrorf ''SCard command failed: %v\<newline>'' (External ''connection refused''),
                  LogErrorf ''SCard command failed: %v\<newline>'' (External ''connection refused''),
                  LogErrorf ''SCard command failed: %v\<newline>'' (External ''connection refused''),
                  LogErrorf ''SCard command failed: %v\<newline>'' (External ''connection refused''),
                  LogDebugf ''Operator failed for key '%s': %v\<newline>'' ''s1''
                    (External ''connection refused'')],
         spans := [StartSpan ''redis'' 0, FinishSpan ''redis'' 0,
                   StartSpan ''redis'' 1, FinishSpan ''redis'' 1],
         arena := (\<lambda>a. if a = 2 then \<lparr>payload = ''s1'', metadata = [],
                                         failed = Some (External ''connection refused'')\<rparr>
                        else if a = 3 then \<lparr>payload = ''0'', metadata = [], failed = None\<rparr>
                        else arena (two_parts s1_down) a),
         next_cell := 4\<rparr>)"
  by (simp add: batch_simps demo_simps s1_down_def)

lemma demo_batch_set_store:
  "ProcessMessage demo_proc [0, 1] (two_parts set_store) =
     Some (([[2, 3]], None),
       (two_parts set_store)
       \<lparr>issued := [SCard ''s1'', SCard ''s2''],
         counters := (\<lambda>_. 0)(''count'' := 1, ''sent'' := 2, ''batch.sent'' := 1),
         spans := [StartSpan ''redis'' 0, FinishSpan ''redis'' 0,
                   StartSpan ''redis'' 1, FinishSpan ''redis'' 1],
         arena := (\<lambda>a. if a = 2 then \<lparr>payload = ''4'', metadata = [], failed = None\<rparr>
                        else if a = 3 then \<lparr>payload = ''0'', metadata = [], failed = None\<rparr>
                        else arena (two_parts set_store) a),
         next_cell := 4\<rparr>)"
  by (simp add: batch_simps demo_simps set_store_def)

section \<open>The retry envelope\<close>

text \<open>
  C1. The claim is that an operator whose command fails at every attempt makes
  \<open>max_retries + 1\<close> attempts. The loop runs for \<open>i = 0, ..., Retries\<close>, after a first
  call made before it: with the default \<open>Retries = 3\<close> and a server that cannot be
  reached, either operator issues its command five times, waits four retry periods and
  counts four retries, where the claim has four attempts (\<open>run_command_all_fail\<close> has
  the count for every setting).
\<close>

theorem retries_off_by_one:
  "apply_operator SCardOperator demo_proc ''s1'' [] (world0 offline) =
     Some (Inl (External ''connection refused''),
           (world0 offline)
           \<lparr>issued := [SCard ''s1'', SCard ''s1'', SCard ''s1'', SCard ''s1'', SCard ''s1''],
             clock := 2000000000,
             counters := (\<lambda>_. 0)(''redis.retry'' := 4),
             logs := [LogErrorf ''SCard command failed: %v\<newline>'' (External ''connection refused''),
                      LogErrorf ''SCard command failed: %v\<newline>'' (External ''connection refused''),
                      LogErrorf ''SCard command failed: %v\<newline>'' (External ''connection refused''),
                      LogErrorf ''SCard command failed: %v\<newline>'' (External ''connection refused'')]\<rparr>) \<and>
   apply_operator SAddOperator demo_proc ''s1'' ''m'' (world0 offline) =
     Some (Inl (External ''connection refused''),
           (world0 offline)
           \<lparr>issued := [SAdd ''s1'' ''m'', SAdd ''s1'' ''m'', SAdd ''s1'' ''m'', SAdd ''s1'' ''m'',
                        SAdd ''s1'' ''m''],
             clock := 2000000000,
             counters := (\<lambda>_. 0)(''redis.retry'' := 4),
             logs := [LogErrorf ''SCard command failed: %v\<newline>'' (External ''connection refused''),
                      LogErrorf ''SCard command failed: %v\<newline>'' (External ''connection refused''),
                      LogErrorf ''SCard command failed: %v\<newline>'' (External ''connection refused''),
                      LogErrorf ''SCard command failed: %v\<newline>'' (External ''connection refused'')]\<rparr>)"
  by (simp add: demo_simps offline_def)

text \<open>
  C4. If the retries setting is at least \<open>k\<close>, the command fails at the first \<open>k\<close>
  attempts of an operator invocation and succeeds with the number \<open>n\<close> at the next one,
  then the invocation returns the decimal digits of \<open>n\<close>, with the retry counter
  (\<open>mRedisRetry\<close>, fetched as \<open>redis.retry\<close>) \<open>k\<close> higher than before and \<open>k + 1\<close>
  commands issued.
\<close>

theorem retry_recovers:
  assumes "int k \<le> sint (Retries (Redis (conf r)))"
    and "\<forall>j<k. isl (remote w (length (issued w) + j) (operator_command opr ky v))"
    and "remote w (length (issued w) + k) (operator_command opr ky v) = Inr n"
  shows "\<exists>w'. apply_operator opr r ky v w = Some (Inr (AppendInt10 [] n), w') \<and>
           counters w' (mRedisRetry r) = counters w (mRedisRetry r) + int k \<and>
           length (issued w') = length (issued w) + k + 1"
  unfolding apply_operator_def using assms by (rule run_command_recovers)

text \<open>
  Witness for C4: with the default three retries, two failures and then the answer 4,
  the operator returns \<open>4\<close> after three commands and two counted retries.
\<close>

theorem retry_recovers_witness:
  "int 2 \<le> sint (Retries (Redis (conf demo_proc))) \<and>
   isl (remote (world0 (flaky 2 4)) (length (issued (world0 (flaky 2 4))) + 0)
          (operator_command SCardOperator ''s1'' [])) \<and>
   isl (remote (world0 (flaky 2 4)) (length (issued (world0 (flaky 2 4))) + 1)
          (operator_command SCardOperator ''s1'' [])) \<and>
   remote (world0 (flaky 2 4)) (length (issued (world0 (flaky 2 4))) + 2)
     (operator_command SCardOperator ''s1'' []) = Inr 4 \<and>
   (\<exists>w'. apply_operator SCardOperator demo_proc ''s1'' [] (world0 (flaky 2 4)) = Some (Inr ''4'', w') \<and>
         counters w' ''redis.retry'' = 2 \<and> length (issued w') = 3)"
proof -
  have h1: "int 2 \<le> sint (Retries (Redis (conf demo_proc)))"
    by (simp add: demo_Retries)
  have h2: "\<forall>j<2. isl (remote (world0 (flaky 2 4)) (length (issued (world0 (flaky 2 4))) + j)
               (operator_command SCardOperator ''s1'' []))"
    by (simp add: world0_def flaky_def)
  have h3: "remote (world0 (flaky 2 4)) (length (issued (world0 (flaky 2 4))) + 2)
     (operator_command SCardOperator ''s1'' []) = Inr 4"
    by (simp add: world0_def flaky_def)
  have d: "AppendInt10 [] 4 = ''4''"
    by (simp add: AppendInt10_def digits10.simps)
  from retry_recovers [OF h1 h2 h3] obtain w' where
    "apply_operator SCardOperator demo_proc ''s1'' [] (world0 (flaky 2 4)) = Some (Inr (AppendInt10 [] 4), w')"
    "counters w' (mRedisRetry demo_proc) = counters (world0 (flaky 2 4)) (mRedisRetry demo_proc) + int 2"
    "length (issued w') = length (issued (world0 (flaky 2 4))) + 2 + 1"
    by blast
  then have "apply_operator SCardOperator demo_proc ''s1'' [] (world0 (flaky 2 4)) = Some (Inr ''4'', w') \<and>
         counters w' ''redis.retry'' = 2 \<and> length (issued w') = 3"
    using d by (simp add: demo_proc_def world0_def)
  moreover have "isl (remote (world0 (flaky 2 4)) (length (issued (world0 (flaky 2 4))) + 0)
          (operator_command SCardOperator ''s1'' []))"
    "isl (remote (world0 (flaky 2 4)) (length (issued (world0 (flaky 2 4))) + 1)
          (operator_command SCardOperator ''s1'' []))"
    by (simp_all add: world0_def flaky_def)
  ultimately show ?thesis using h1 h3 by blast
qed

text \<open>
  C5. An operator invocation returns unless the retries setting is the largest \<open>int\<close>,
  and whenever it returns, what it returns is the outcome of the last command it issued:
  that command's error as it is, with no result bytes, or the digits of its number, with
  no error. Every command before the last one failed, so an attempt that succeeds is the
  last one and its result is what is returned.
\<close>

theorem operator_result:
  "(sint (Retries (Redis (conf r))) < 2 ^ 63 - 1 \<longrightarrow>
      (\<exists>out w'. apply_operator opr r ky v w = Some (out, w'))) \<and>
   (\<forall>out w'. apply_operator opr r ky v w = Some (out, w') \<longrightarrow>
      (\<exists>a>0. issued w' = issued w @ replicate a (operator_command opr ky v) \<and>
         (\<forall>j. Suc j < a \<longrightarrow> isl (remote w (length (issued w) + j) (operator_command opr ky v))) \<and>
         out = (case remote w (length (issued w) + a - 1) (operator_command opr ky v) of
                  Inl e \<Rightarrow> Inl e
                | Inr n \<Rightarrow> Inr (AppendInt10 [] n))))"
proof (intro conjI impI allI)
  assume "sint (Retries (Redis (conf r))) < 2 ^ 63 - 1"
  then show "\<exists>out w'. apply_operator opr r ky v w = Some (out, w')"
    unfolding apply_operator_def by (rule run_command_total)
next
  fix out w'
  assume "apply_operator opr r ky v w = Some (out, w')"
  then have "run_command r (operator_command opr ky v) w = Some (out, w')"
    by (simp add: apply_operator_def)
  from run_command_shape [OF this] obtain a where "0 < a"
    "issued w' = issued w @ replicate a (operator_command opr ky v)"
    "\<forall>j. Suc j < a \<longrightarrow> isl (remote w (length (issued w) + j) (operator_command opr ky v))"
    "out = (case remote w (length (issued w) + a - 1) (operator_command opr ky v) of
                  Inl e \<Rightarrow> Inl e
                | Inr n \<Rightarrow> Inr (AppendInt10 [] n))"
    by (elim exE conjE) (rule that, assumption+)
  then show "\<exists>a>0. issued w' = issued w @ replicate a (operator_command opr ky v) \<and>
         (\<forall>j. Suc j < a \<longrightarrow> isl (remote w (length (issued w) + j) (operator_command opr ky v))) \<and>
         out = (case remote w (length (issued w) + a - 1) (operator_command opr ky v) of
                  Inl e \<Rightarrow> Inl e
                | Inr n \<Rightarrow> Inr (AppendInt10 [] n))"
    by blast
qed

text \<open>
  Witness for C5: against a server that cannot be reached the default processor returns
  the error of its last, fifth command.
\<close>

theorem operator_result_witness:
  "sint (Retries (Redis (conf demo_proc))) < 2 ^ 63 - 1 \<and>
   (\<exists>a>0. apply_operator SCardOperator demo_proc ''s1'' [] (world0 offline) =
            Some (Inl (External ''connection refused''),
                  (world0 offline)
                  \<lparr>issued := [SCard ''s1'', SCard ''s1'', SCard ''s1'', SCard ''s1'', SCard ''s1''],
                    clock := 2000000000,
                    counters := (\<lambda>_. 0)(''redis.retry'' := 4),
                    logs := [LogErrorf ''SCard command failed: %v\<newline>'' (External ''connection refused''),
                             LogErrorf ''SCard command failed: %v\<newline>'' (External ''connection refused''),
                             LogErrorf ''SCard command failed: %v\<newline>'' (External ''connection refused''),
                             LogErrorf ''SCard command failed: %v\<newline>'' (External ''connection refused'')]\<rparr>) \<and>
          replicate 5 (SCard ''s1'') = replicate a (SCard ''s1'') \<and>
          Inl (External ''connection refused'') =
            (case remote (world0 offline) (a - 1) (SCard ''s1'') of
               Inl e \<Rightarrow> Inl e
             | Inr n \<Rightarrow> (Inr (AppendInt10 [] n) :: error + bytes)))"
proof -
  have h: "sint (Retries (Redis (conf demo_proc))) < 2 ^ 63 - 1"
    by (simp add: demo_Retries)
  note run = demo_offline_scard
  from operator_result [of demo_proc SCardOperator "''s1''" "[]" "world0 offline"] run
  obtain a where "0 < a"
    "issued ((world0 offline)
                  \<lparr>issued := [SCard ''s1'', SCard ''s1'', SCard ''s1'', SCard ''s1'', SCard ''s1''],
                    clock := 2000000000,
                    counters := (\<lambda>_. 0)(''redis.retry'' := 4),
                    logs := [LogErrorf ''SCard command failed: %v\<newline>'' (External ''connection refused''),
                             LogErrorf ''SCard command failed: %v\<newline>'' (External ''connection refused''),
                             LogErrorf ''SCard command failed: %v\<newline>'' (External ''connection refused''),
                             LogErrorf ''SCard command failed: %v\<newline>'' (External ''connection refused'')]\<rparr>)
       = issued (world0 offline) @ replicate a (operator_command SCardOperator ''s1'' [])"
    "Inl (External ''connection refused'') =
       (case remote (world0 offline) (length (issued (world0 offline)) + a - 1)
               (operator_command SCardOperator ''s1'' []) of
          Inl e \<Rightarrow> Inl e
        | Inr n \<Rightarrow> (Inr (AppendInt10 [] n) :: error + bytes))"
    by blast
  then have "0 < a \<and> replicate 5 (SCard ''s1'') = replicate a (SCard ''s1'') \<and>
          Inl (External ''connection refused'') =
            (case remote (world0 offline) (a - 1) (SCard ''s1'') of
               Inl e \<Rightarrow> Inl e
             | Inr n \<Rightarrow> (Inr (AppendInt10 [] n) :: error + bytes))"
    by (simp add: world0_def numeral_eq_Suc)
  then show ?thesis using h run by blast
qed

section \<open>Shutdown\<close>

text \<open>
  C2, as the code has it. \<open>CloseAsync\<close> changes nothing: an operator invoked after it,
  and a retry loop resumed after it, behave as without it, and a turn of the loop during
  whose wait it is called waits for the whole retry period, counts the retry and issues
  the command again.
\<close>

theorem CloseAsync_no_effect:
  "CloseAsync r w = w \<and>
   apply_operator opr r ky v (CloseAsync r w) = apply_operator opr r ky v w \<and>
   retry_loop r c i res (CloseAsync r w) = retry_loop r c i res w \<and>
   (0 \<le> d \<and> d \<le> retryPeriod r \<longrightarrow>
      retry_body_interrupted r c err d w = retry_body r c err w)"
  by (simp add: CloseAsync_def retry_body_interrupted_def retry_body_def sleep_def Let_def)

text \<open>
  Witness for C2: \<open>CloseAsync\<close> called 250 ms into the first 500 ms wait of the default
  processor; the turn ends after 500 ms with the second command issued.
\<close>

theorem CloseAsync_no_effect_witness:
  "(0 :: duration) \<le> 250000000 \<and> 250000000 \<le> retryPeriod demo_proc \<and>
   retry_body_interrupted demo_proc (SCard ''s1'') (External ''connection refused'') 250000000
       first_call_failed =
     (Inl (External ''connection refused''),
      first_call_failed
      \<lparr>issued := [SCard ''s1'', SCard ''s1''],
        clock := 500000000,
        counters := (\<lambda>_. 0)(''redis.retry'' := 1),
        logs := [LogErrorf ''SCard command failed: %v\<newline>'' (External ''connection refused'')]\<rparr>)"
proof -
  have h: "(0 :: duration) \<le> 250000000 \<and> 250000000 \<le> retryPeriod demo_proc"
    by (simp add: demo_proc_def)
  have "retry_body demo_proc (SCard ''s1'') (External ''connection refused'') first_call_failed =
     (Inl (External ''connection refused''),
      first_call_failed
      \<lparr>issued := [SCard ''s1'', SCard ''s1''],
        clock := 500000000,
        counters := (\<lambda>_. 0)(''redis.retry'' := 1),
        logs := [LogErrorf ''SCard command failed: %v\<newline>'' (External ''connection refused'')]\<rparr>)"
    by (simp add: retry_body_eq first_call_failed_def world0_def demo_proc_def offline_def fun_eq_iff)
  then show ?thesis
    using h CloseAsync_no_effect [where r = demo_proc and w = first_call_failed and d = 250000000
        and c = "SCard ''s1''" and err = "External ''connection refused''"]
    by simp
qed

text \<open>
  C2 as claimed fails: the default processor, a server that cannot be reached, the first
  command failed, \<open>CloseAsync\<close> called 250 ms into the first wait. The loop does not stop
  there with one command issued: it goes on to five commands, four counted retries and
  two seconds of waiting.
\<close>

theorem CloseAsync_retries_go_on:
  "retry_loop demo_proc (SCard ''s1'') 1
     (fst (retry_body_interrupted demo_proc (SCard ''s1'') (External ''connection refused'')
             250000000 first_call_failed))
     (snd (retry_body_interrupted demo_proc (SCard ''s1'') (External ''connection refused'')
             250000000 first_call_failed)) =
   Some (Inl (External ''connection refused''),
         (world0 offline)
         \<lparr>issued := [SCard ''s1'', SCard ''s1'', SCard ''s1'', SCard ''s1'', SCard ''s1''],
           clock := 2000000000,
           counters := (\<lambda>_. 0)(''redis.retry'' := 4),
           logs := [LogErrorf ''SCard command failed: %v\<newline>'' (External ''connection refused''),
                    LogErrorf ''SCard command failed: %v\<newline>'' (External ''connection refused''),
                    LogErrorf ''SCard command failed: %v\<newline>'' (External ''connection refused''),
                    LogErrorf ''SCard command failed: %v\<newline>'' (External ''connection refused'')]\<rparr>)"
  by (simp add: retry_body_interrupted_def CloseAsync_def log_Errorf_def sleep_def Incr_def
      client_call_def Let_def first_call_failed_def demo_simps offline_def)

text \<open>
  C3, as the code has it. For every timeout, \<open>WaitForClose\<close> returns nil, once the
  client's \<open>Close()\<close> has returned, however long that takes; it reads neither the timeout
  nor what \<open>Close()\<close> returns.
\<close>

theorem WaitForClose_ignores_timeout:
  "WaitForClose r timeout w = (None, w\<lparr>closed := True, clock := clock w + max 0 (close_latency w)\<rparr>)"
  by (simp add: WaitForClose_def client_Close_def)

text \<open>
  C3 as claimed fails: with a timeout of one nanosecond and a client that takes five
  seconds to close, \<open>WaitForClose\<close> returns nil after five seconds, not a timeout error.
\<close>

theorem WaitForClose_short_timeout:
  "(1 :: duration) < close_latency slow_to_close \<and>
   WaitForClose demo_proc 1 slow_to_close =
     (None, slow_to_close\<lparr>closed := True, clock := 5000000000\<rparr>)"
  by (simp add: WaitForClose_def client_Close_def slow_to_close_def world0_def)

section \<open>Construction\<close>

text \<open>
  C7. For an operator name other than \<open>scard\<close> and \<open>sadd\<close>, \<open>getRedisOperator\<close> returns
  the error "operator not recognised" and \<open>NewRedis\<close> fails; the two names resolve to
  the two closures; and a processor that \<open>NewRedis\<close> returns holds the closure its
  configured name resolves to. Processing calls that closure and never looks a name up:
  an error the closure returns is an error the server answered with.
\<close>

theorem operator_resolved_at_construction:
  "(Operator (Redis cnf) \<noteq> ''scard'' \<and> Operator (Redis cnf) \<noteq> ''sadd'' \<longrightarrow>
      getRedisOperator (Operator (Redis cnf)) =
        Inl (ErrorfStr ''operator not recognised: %v'' (Operator (Redis cnf))) \<and>
      (\<exists>e. NewRedis env cnf = Inl e)) \<and>
   getRedisOperator ''scard'' = Inr newRedisSCardOperator \<and>
   getRedisOperator ''sadd'' = Inr newRedisSAddOperator \<and>
   (\<forall>r. NewRedis env cnf = Inr r \<longrightarrow>
      getRedisOperator (Operator (Redis cnf)) = Inr (operator r) \<and>
      (\<forall>k v w e w'. apply_operator (operator r) r k v w = Some (Inl e, w') \<longrightarrow>
         (\<exists>n. remote w n (operator_command (operator r) k v) = Inl e)))"
proof -
  have "\<forall>r. NewRedis env cnf = Inr r \<longrightarrow>
      getRedisOperator (Operator (Redis cnf)) = Inr (operator r)"
    by (auto simp: NewRedis_def Let_def split: sum.splits)
  moreover have "Operator (Redis cnf) \<noteq> ''scard'' \<and> Operator (Redis cnf) \<noteq> ''sadd'' \<longrightarrow>
      getRedisOperator (Operator (Redis cnf)) =
        Inl (ErrorfStr ''operator not recognised: %v'' (Operator (Redis cnf))) \<and>
      (\<exists>e. NewRedis env cnf = Inl e)"
    by (auto simp: NewRedis_def getRedisOperator_def Let_def split: sum.splits)
  moreover have "getRedisOperator ''scard'' = Inr newRedisSCardOperator"
    "getRedisOperator ''sadd'' = Inr newRedisSAddOperator"
    by (simp_all add: getRedisOperator_def)
  ultimately show ?thesis
    using apply_operator_error_is_remote by blast
qed

text \<open>
  Witness for C7: the name \<open>incr\<close> is refused at construction; the default name
  \<open>scard\<close> is resolved.
\<close>

theorem operator_resolved_at_construction_witness:
  "Operator (Redis (demo_conf\<lparr>Redis := (Redis demo_conf)\<lparr>Operator := ''incr''\<rparr>\<rparr>)) \<noteq> ''scard'' \<and>
   Operator (Redis (demo_conf\<lparr>Redis := (Redis demo_conf)\<lparr>Operator := ''incr''\<rparr>\<rparr>)) \<noteq> ''sadd'' \<and>
   (\<exists>e. NewRedis demo_env (demo_conf\<lparr>Redis := (Redis demo_conf)\<lparr>Operator := ''incr''\<rparr>\<rparr>) = Inl e) \<and>
   NewRedis demo_env demo_conf = Inr demo_proc \<and>
   getRedisOperator (Operator (Redis demo_conf)) = Inr (operator demo_proc)"
  using operator_resolved_at_construction
          [of "demo_conf\<lparr>Redis := (Redis demo_conf)\<lparr>Operator := ''incr''\<rparr>\<rparr>" demo_env]
        operator_resolved_at_construction [of demo_conf demo_env] NewRedis_demo
  by simp

text \<open>
  C10. With an empty \<open>retry_period\<close>, \<open>NewRedis\<close> does not depend on
  \<open>time.ParseDuration\<close> (any other parser in its place gives the same result), a
  processor it returns has a retry period of zero, and it returns one whenever the client,
  the key expression and the operator name are in order. With a non-empty
  \<open>retry_period\<close>, a parse error is returned as the construction error "failed to parse
  retry period string", and a parsed duration is the retry period of the processor
  returned.
\<close>

theorem empty_retry_period:
  "(RetryPeriod (Redis cnf) = [] \<longrightarrow>
      NewRedis (env\<lparr>ParseDuration := pd\<rparr>) cnf = NewRedis env cnf \<and>
      (\<forall>r. NewRedis env cnf = Inr r \<longrightarrow> retryPeriod r = 0) \<and>
      (\<forall>cl k opr. Client env (Config (Redis cnf)) = Inr cl \<and>
                   NewField env (Key (Redis cnf)) = Inr k \<and>
                   getRedisOperator (Operator (Redis cnf)) = Inr opr \<longrightarrow>
                   (\<exists>r. NewRedis env cnf = Inr r))) \<and>
   (RetryPeriod (Redis cnf) \<noteq> [] \<longrightarrow>
      (\<forall>e. ParseDuration env (RetryPeriod (Redis cnf)) = Inl e \<longrightarrow>
           NewRedis env cnf = Inl (ErrorfErr ''failed to parse retry period string: %v'' e)) \<and>
      (\<forall>d r. ParseDuration env (RetryPeriod (Redis cnf)) = Inr d \<and> NewRedis env cnf = Inr r \<longrightarrow>
           retryPeriod r = d))"
  by (auto simp: NewRedis_def Let_def split: sum.splits)

text \<open>
  Witness for C10: a parser that rejects the empty string, as \<open>time.ParseDuration\<close>
  does. The empty \<open>retry_period\<close> gives a processor with no delay; \<open>soon\<close> is refused.
\<close>

theorem empty_retry_period_witness:
  "RetryPeriod (Redis (demo_conf\<lparr>Redis := (Redis demo_conf)\<lparr>RetryPeriod := []\<rparr>\<rparr>)) = [] \<and>
   ParseDuration demo_env [] = Inl (External ''time: invalid duration'') \<and>
   NewRedis demo_env (demo_conf\<lparr>Redis := (Redis demo_conf)\<lparr>RetryPeriod := []\<rparr>\<rparr>) =
     Inr (demo_proc\<lparr>conf := demo_conf\<lparr>Redis := (Redis demo_conf)\<lparr>RetryPeriod := []\<rparr>\<rparr>,
                    retryPeriod := 0\<rparr>) \<and>
   RetryPeriod (Redis (demo_conf\<lparr>Redis := (Redis demo_conf)\<lparr>RetryPeriod := ''soon''\<rparr>\<rparr>)) \<noteq> [] \<and>
   NewRedis demo_env (demo_conf\<lparr>Redis := (Redis demo_conf)\<lparr>RetryPeriod := ''soon''\<rparr>\<rparr>) =
     Inl (ErrorfErr ''failed to parse retry period string: %v'' (External ''time: invalid duration''))"
proof -
  let ?c0 = "demo_conf\<lparr>Redis := (Redis demo_conf)\<lparr>RetryPeriod := []\<rparr>\<rparr>"
  let ?c1 = "demo_conf\<lparr>Redis := (Redis demo_conf)\<lparr>RetryPeriod := ''soon''\<rparr>\<rparr>"
  have e0: "RetryPeriod (Redis ?c0) = []" by simp
  have e1: "RetryPeriod (Redis ?c1) \<noteq> []" by simp
  have p0: "ParseDuration demo_env [] = Inl (External ''time: invalid duration'')"
    by (simp add: demo_env_def)
  have p1: "ParseDuration demo_env (RetryPeriod (Redis ?c1)) = Inl (External ''time: invalid duration'')"
    by (simp add: demo_env_def)
  have ok: "Client demo_env (Config (Redis ?c0)) = Inr () \<and>
      NewField demo_env (Key (Redis ?c0)) = Inr (\<lambda>i ps. if i < length ps then payload (ps ! i) else []) \<and>
      getRedisOperator (Operator (Redis ?c0)) = Inr SCardOperator"
    by (simp add: demo_env_def demo_conf_def NewRedisConfig_def getRedisOperator_def
        newRedisSCardOperator_def)
  from empty_retry_period [where cnf = ?c0 and env = demo_env and pd = "ParseDuration demo_env"] e0 ok
  obtain r where r: "NewRedis demo_env ?c0 = Inr r" "retryPeriod r = 0" by blast
  have "NewRedis demo_env ?c0 = Inr (demo_proc\<lparr>conf := ?c0, retryPeriod := 0\<rparr>)"
    by (simp add: NewRedis_def demo_env_def demo_conf_def demo_proc_def NewRedisConfig_def
      getRedisOperator_def newRedisSCardOperator_def)
  moreover from empty_retry_period [where cnf = ?c1 and env = demo_env and pd = "ParseDuration demo_env"] e1 p1
  have "NewRedis demo_env ?c1 =
     Inl (ErrorfErr ''failed to parse retry period string: %v'' (External ''time: invalid duration''))"
    by blast
  ultimately show ?thesis using e0 e1 p0 by blast
qed

section \<open>The output registry\<close>

text \<open>
  C8. A configuration whose type name is not registered yields a nil stage and the error
  \<open>ErrInvalidOutputType\<close>; for a registered name the registered constructor is applied to
  the configuration as supplied and its pair of results is returned unchanged.
\<close>

theorem Construct_registry:
  "(constructors (Type cnf) = None \<longrightarrow>
      Construct constructors cnf = (None, Some ErrInvalidOutputType)) \<and>
   (\<forall>c. constructors (Type cnf) = Some c \<longrightarrow> Construct constructors cnf = c cnf)"
  by (simp add: Construct_def)

text \<open>
  Witness for C8: \<open>stdout\<close> is not registered; \<open>zmq4\<close> is, and its constructor's stage or
  error comes back as it is.
\<close>

theorem Construct_registry_witness:
  "demo_registry (Type \<lparr>Type = ''stdout'', ZMQ4 = None\<rparr>) = None \<and>
   Construct demo_registry \<lparr>Type = ''stdout'', ZMQ4 = None\<rparr> = (None, Some ErrInvalidOutputType) \<and>
   Construct demo_registry \<lparr>Type = ''zmq4'', ZMQ4 = Some ()\<rparr> = (Some ''zmq4 output'', None) \<and>
   Construct demo_registry \<lparr>Type = ''zmq4'', ZMQ4 = None\<rparr> =
     (None, Some (External ''zmq4: no settings''))"
  using Construct_registry [of demo_registry "\<lparr>Type = ''stdout'', ZMQ4 = None\<rparr>"]
        Construct_registry [of demo_registry "\<lparr>Type = ''zmq4'', ZMQ4 = Some ()\<rparr>"]
        Construct_registry [of demo_registry "\<lparr>Type = ''zmq4'', ZMQ4 = None\<rparr>"]
  by (simp add: demo_registry_def)


section \<open>Processing a message\<close>

text \<open>
  C6. For a processor built by \<open>NewRedis\<close> whose retries setting is below the largest
  \<open>int\<close>, and for every input message and world, \<open>ProcessMessage\<close> returns one message,
  the copy \<open>newMsg\<close> of the input, and the nil response. Every targeted part is visited,
  in ascending order, inside its own span, whatever happened to the parts before it.
  Its outcome \<open>outs ! j\<close> is what the operator returned in the run itself: in the world
  \<open>wj\<close> that the iteration has reached when it is done with the targets before it, the
  part still as it came, the call that \<open>proc\<close> makes for the part returns \<open>outs ! j\<close>. On
  an error the part ends with the payload and the metadata it came with and carries the
  error; on a result the result is its new payload. The error counter rises by the
  number of parts whose outcome is an error.
\<close>

theorem ProcessMessage_isolates_failures:
  assumes built: "NewRedis env cnf = Inr r"
    and R: "sint (Retries (Redis cnf)) < 2 ^ 63 - 1"
  shows "\<exists>newMsg w2 w' outs.
     Copy_msg msg (Incr (mCount r) 1 w) = (newMsg, w2) \<and>
     ProcessMessage r msg w = Some (([newMsg], None), w') \<and>
     length newMsg = length msg \<and>
     length outs = length (targets (parts r) (length msg)) \<and>
     counters w' ''error'' = counters w ''error'' + int (length (filter isl outs)) \<and>
     spans w' = spans w @ concat (map (\<lambda>i. [StartSpan ''redis'' i, FinishSpan ''redis'' i])
                                   (targets (parts r) (length msg))) \<and>
     (\<forall>j<length outs.
        (\<exists>any wj wa.
            iterate_parts TypeRedis (take j (targets (parts r) (length msg))) newMsg
              (proc r newMsg) w2 = Some (any, wj) \<and>
            operator_call r newMsg (targets (parts r) (length msg) ! j)
              (start_span TypeRedis (targets (parts r) (length msg) ! j) wj) =
              Some (outs ! j, wa) \<and>
            arena wj (newMsg ! (targets (parts r) (length msg) ! j)) =
              arena w (msg ! (targets (parts r) (length msg) ! j))) \<and>
        arena w' (newMsg ! (targets (parts r) (length msg) ! j)) =
          (case outs ! j of
             Inl e \<Rightarrow> (arena w (msg ! (targets (parts r) (length msg) ! j)))\<lparr>failed := Some e\<rparr>
           | Inr b \<Rightarrow> (arena w (msg ! (targets (parts r) (length msg) ! j)))\<lparr>payload := b\<rparr>))"
proof -
  note f = NewRedis_fields [OF built]
  let ?ts = "targets (parts r) (length msg)"
  let ?n = "next_cell w"
  let ?new = "[?n ..< ?n + length msg]"
  define w1 where "w1 = Incr (mCount r) 1 w"
  define w2 where "w2 = snd (Copy_msg msg w1)"
  have n1: "next_cell w1 = ?n" and a1: "arena w1 = arena w" and s1: "spans w1 = spans w"
    and c1: "counters w1 ''error'' = counters w ''error''"
    by (simp_all add: w1_def Incr_def f)
  have copy: "Copy_msg msg w1 = (?new, w2)"
    by (simp add: w2_def Copy_msg_eq n1)
  have a2: "arena w2 (?new ! i) = arena w (msg ! i)" if "i < length msg" for i
    using that by (simp add: w2_def Copy_msg_eq n1 a1)
  have s2: "spans w2 = spans w" and c2: "counters w2 ''error'' = counters w ''error''"
    by (simp_all add: w2_def Copy_msg_eq s1 c1)
  have R': "sint (Retries (Redis (conf r))) < 2 ^ 63 - 1" using R f(1) by simp
  have ne: "mErr r \<noteq> mRedisRetry r" by (simp add: f)
  have lt: "\<forall>i\<in>set ?ts. i < length ?new" using targets_bound [of "parts r" "length msg"] by simp
  have dm: "distinct ?new" by simp
  from iterate_proc [where name = TypeRedis and w = w2, OF R' ne dm targets_distinct lt]
  obtain any w3 outs where it:
    "iterate_parts TypeRedis ?ts ?new (proc r ?new) w2 = Some (any, w3)"
    "length outs = length ?ts"
    "counters w3 (mErr r) = counters w2 (mErr r) + int (length (filter isl outs))"
    "spans w3 = spans w2 @ concat (map (\<lambda>i. [StartSpan TypeRedis i, FinishSpan TypeRedis i]) ?ts)"
    "\<forall>j<length ?ts.
          (\<exists>any wj wa.
              iterate_parts TypeRedis (take j ?ts) ?new (proc r ?new) w2 = Some (any, wj) \<and>
              operator_call r ?new (?ts ! j) (start_span TypeRedis (?ts ! j) wj) = Some (outs ! j, wa) \<and>
              arena wj (?new ! (?ts ! j)) = arena w2 (?new ! (?ts ! j))) \<and>
          arena w3 (?new ! (?ts ! j)) =
            (case outs ! j of
               Inl e \<Rightarrow> (arena w2 (?new ! (?ts ! j)))\<lparr>failed := Some e\<rparr>
             | Inr b \<Rightarrow> (arena w2 (?new ! (?ts ! j)))\<lparr>payload := b\<rparr>)"
    by (elim exE conjE) (rule that, simp_all)
  define w5 where "w5 = Incr (mSent r) (int (Len ?new)) (Incr (mBatchSent r) 1 w3)"
  have pm: "ProcessMessage r msg w = Some (([?new], None), w5)"
    using copy it(1)
    by (simp add: ProcessMessage_def IteratePartsWithSpan_def Len_def Let_def w5_def
        flip: w1_def)
  have c5: "counters w5 ''error'' = counters w ''error'' + int (length (filter isl outs))"
    using it(3) c2 by (simp add: w5_def Incr_def f)
  have s5: "spans w5 = spans w @ concat (map (\<lambda>i. [StartSpan ''redis'' i, FinishSpan ''redis'' i]) ?ts)"
    using it(4) s2 by (simp add: w5_def Incr_def TypeRedis_def)
  have a5: "arena w5 = arena w3" by (simp add: w5_def Incr_def)
  have parts: "\<forall>j<length outs.
        (\<exists>any wj wa.
            iterate_parts TypeRedis (take j ?ts) ?new (proc r ?new) w2 = Some (any, wj) \<and>
            operator_call r ?new (?ts ! j) (start_span TypeRedis (?ts ! j) wj) = Some (outs ! j, wa) \<and>
            arena wj (?new ! (?ts ! j)) = arena w (msg ! (?ts ! j))) \<and>
        arena w5 (?new ! (?ts ! j)) =
          (case outs ! j of
             Inl e \<Rightarrow> (arena w (msg ! (?ts ! j)))\<lparr>failed := Some e\<rparr>
           | Inr b \<Rightarrow> (arena w (msg ! (?ts ! j)))\<lparr>payload := b\<rparr>)"
  proof (intro allI impI)
    fix j assume j: "j < length outs"
    then have jt: "j < length ?ts" using it(2) by simp
    then have "?ts ! j \<in> set ?ts" by simp
    then have b: "?ts ! j < length msg" using targets_bound [of "parts r" "length msg"] by blast
    note eq = a2 [OF b]
    from it(5) jt have
      "(\<exists>any wj wa.
              iterate_parts TypeRedis (take j ?ts) ?new (proc r ?new) w2 = Some (any, wj) \<and>
              operator_call r ?new (?ts ! j) (start_span TypeRedis (?ts ! j) wj) = Some (outs ! j, wa) \<and>
              arena wj (?new ! (?ts ! j)) = arena w2 (?new ! (?ts ! j))) \<and>
          arena w3 (?new ! (?ts ! j)) =
            (case outs ! j of
               Inl e \<Rightarrow> (arena w2 (?new ! (?ts ! j)))\<lparr>failed := Some e\<rparr>
             | Inr b \<Rightarrow> (arena w2 (?new ! (?ts ! j)))\<lparr>payload := b\<rparr>)"
      by blast
    then show "(\<exists>any wj wa.
            iterate_parts TypeRedis (take j ?ts) ?new (proc r ?new) w2 = Some (any, wj) \<and>
            operator_call r ?new (?ts ! j) (start_span TypeRedis (?ts ! j) wj) = Some (outs ! j, wa) \<and>
            arena wj (?new ! (?ts ! j)) = arena w (msg ! (?ts ! j))) \<and>
        arena w5 (?new ! (?ts ! j)) =
          (case outs ! j of
             Inl e \<Rightarrow> (arena w (msg ! (?ts ! j)))\<lparr>failed := Some e\<rparr>
           | Inr b \<Rightarrow> (arena w (msg ! (?ts ! j)))\<lparr>payload := b\<rparr>)"
      unfolding eq a5 .
  qed
  have copy': "Copy_msg msg (Incr (mCount r) 1 w) = (?new, w2)"
    using copy by (simp add: w1_def)
  show ?thesis
    by (intro exI [of _ ?new] exI [of _ w2] exI [of _ w5] exI [of _ outs] conjI)
      (use copy' pm it(2) c5 s5 parts in simp_all)
qed

text \<open>
  Witness for C6: the default processor, a message with the keys \<open>s1\<close> and \<open>s2\<close>, and a
  server on which \<open>s1\<close> cannot be reached. The first part keeps \<open>s1\<close> and carries the
  error, the error counter is 1, and the second part is still processed, to \<open>0\<close>: the
  outcomes are the error for the first part and \<open>0\<close> for the second.
\<close>

theorem ProcessMessage_isolates_failures_witness:
  "NewRedis demo_env demo_conf = Inr demo_proc \<and>
   sint (Retries (Redis demo_conf)) < 2 ^ 63 - 1 \<and>
   (\<exists>w' (outs :: (error + bytes) list).
      ProcessMessage demo_proc [0, 1] (two_parts s1_down) = Some (([[2, 3]], None :: unit option), w') \<and>
      outs = [Inl (External ''connection refused''), Inr ''0''] \<and>
      counters w' ''error'' = 1 \<and>
      arena w' 2 = \<lparr>payload = ''s1'', metadata = [], failed = Some (External ''connection refused'')\<rparr> \<and>
      arena w' 3 = \<lparr>payload = ''0'', metadata = [], failed = None\<rparr>)"
proof -
  have h: "sint (Retries (Redis demo_conf)) < 2 ^ 63 - 1"
    by (simp add: demo_conf_def NewRedisConfig_def)
  have ts: "targets (parts demo_proc) (length [0 :: nat, 1]) = [0, 1]"
    by (simp add: targets_def demo_proc_def upt_rec)
  from ProcessMessage_isolates_failures [OF NewRedis_demo h, of "[0, 1]" "two_parts s1_down"]
  obtain newMsg w2 w' and outs :: "(error + bytes) list" where t0:
    "ProcessMessage demo_proc [0, 1] (two_parts s1_down) = Some (([newMsg], None :: unit option), w')"
    "length outs = length (targets (parts demo_proc) (length [0 :: nat, 1]))"
    "counters w' ''error'' = counters (two_parts s1_down) ''error'' + int (length (filter isl outs))"
    "\<forall>j<length outs.
        (\<exists>any wj wa.
            iterate_parts TypeRedis (take j (targets (parts demo_proc) (length [0 :: nat, 1]))) newMsg
              (proc demo_proc newMsg) w2 = Some (any, wj) \<and>
            operator_call demo_proc newMsg (targets (parts demo_proc) (length [0 :: nat, 1]) ! j)
              (start_span TypeRedis (targets (parts demo_proc) (length [0 :: nat, 1]) ! j) wj) =
              Some (outs ! j, wa) \<and>
            arena wj (newMsg ! (targets (parts demo_proc) (length [0 :: nat, 1]) ! j)) =
              arena (two_parts s1_down) ([0, 1] ! (targets (parts demo_proc) (length [0 :: nat, 1]) ! j))) \<and>
        arena w' (newMsg ! (targets (parts demo_proc) (length [0 :: nat, 1]) ! j)) =
          (case outs ! j of
             Inl e \<Rightarrow> (arena (two_parts s1_down)
                         ([0, 1] ! (targets (parts demo_proc) (length [0 :: nat, 1]) ! j)))\<lparr>failed := Some e\<rparr>
           | Inr b \<Rightarrow> (arena (two_parts s1_down)
                         ([0, 1] ! (targets (parts demo_proc) (length [0 :: nat, 1]) ! j)))\<lparr>payload := b\<rparr>)"
    by (elim exE conjE) (rule that, assumption+)
  have t: "ProcessMessage demo_proc [0, 1] (two_parts s1_down) = Some (([newMsg], None :: unit option), w')"
    "length outs = 2"
    "counters w' ''error'' = counters (two_parts s1_down) ''error'' + int (length (filter isl outs))"
    "\<forall>j<length outs. arena w' (newMsg ! ([0, 1] ! j)) =
          (case outs ! j of
             Inl e \<Rightarrow> (arena (two_parts s1_down) ([0, 1] ! ([0, 1] ! j)))\<lparr>failed := Some e\<rparr>
           | Inr b \<Rightarrow> (arena (two_parts s1_down) ([0, 1] ! ([0, 1] ! j)))\<lparr>payload := b\<rparr>)"
    using t0 unfolding ts by simp_all
  note run = demo_batch_s1_down [where ?'a = unit]
  from t(1) run have n: "newMsg = [2, 3]" and w': "w' = (two_parts s1_down)
       \<lparr>issued := [SCard ''s1'', SCard ''s1'', SCard ''s1'', SCard ''s1'', SCard ''s1'', SCard ''s2''],
         clock := 2000000000,
         counters := (\<lambda>_. 0)(''count'' := 1, ''error'' := 1, ''sent'' := 2, ''batch.sent'' := 1,
                              ''redis.retry'' := 4),
         logs := [LogErrorf ''SCard command failed: %v\<newline>'' (External ''connection refused''),
                  LogErrorf ''SCard command failed: %v\<newline>'' (External ''connection refused''),
                  LogErrorf ''SCard command failed: %v\<newline>'' (External ''connection refused''),
                  LogErrorf ''SCard command failed: %v\<newline>'' (External ''connection refused''),
                  LogDebugf ''Operator failed for key '%s': %v\<newline>'' ''s1''
                    (External ''connection refused'')],
         spans := [StartSpan ''redis'' 0, FinishSpan ''redis'' 0,
                   StartSpan ''redis'' 1, FinishSpan ''redis'' 1],
         arena := (\<lambda>a. if a = 2 then \<lparr>payload = ''s1'', metadata = [],
                                         failed = Some (External ''connection refused'')\<rparr>
                        else if a = 3 then \<lparr>payload = ''0'', metadata = [], failed = None\<rparr>
                        else arena (two_parts s1_down) a),
         next_cell := 4\<rparr>"
    by simp_all
  have c: "counters w' ''error'' = 1" "arena w' 2 = \<lparr>payload = ''s1'', metadata = [], failed = Some (External ''connection refused'')\<rparr>"
    "arena w' 3 = \<lparr>payload = ''0'', metadata = [], failed = None\<rparr>"
    by (simp_all add: w')
  from t(4) [rule_format, of 0] t(2) have "arena w' (newMsg ! ([0, 1] ! 0)) =
          (case outs ! 0 of
             Inl e \<Rightarrow> (arena (two_parts s1_down) ([0, 1] ! ([0, 1] ! 0)))\<lparr>failed := Some e\<rparr>
           | Inr b \<Rightarrow> (arena (two_parts s1_down) ([0, 1] ! ([0, 1] ! 0)))\<lparr>payload := b\<rparr>)"
    by simp
  then have o0: "outs ! 0 = Inl (External ''connection refused'')"
    using c(2) n by (cases "outs ! 0") (simp_all add: two_parts_def world0_def)
  from t(4) [rule_format, of 1] t(2) have "arena w' (newMsg ! ([0, 1] ! 1)) =
          (case outs ! 1 of
             Inl e \<Rightarrow> (arena (two_parts s1_down) ([0, 1] ! ([0, 1] ! 1)))\<lparr>failed := Some e\<rparr>
           | Inr b \<Rightarrow> (arena (two_parts s1_down) ([0, 1] ! ([0, 1] ! 1)))\<lparr>payload := b\<rparr>)"
    by simp
  then have o1: "outs ! 1 = Inr ''0''"
    using c(3) n by (cases "outs ! 1") (simp_all add: two_parts_def world0_def)
  have outs: "outs = [Inl (External ''connection refused''), Inr ''0'']"
    using t(2) o0 o1 by (simp add: list_eq_iff_nth_eq less_Suc_eq numeral_2_eq_2)
  show ?thesis
    using NewRedis_demo h t(1) n outs c
    by (intro conjI exI [of _ w'] exI [of _ outs]) simp_all
qed

text \<open>
  C9. If the cells of the input message are cells in use, \<open>ProcessMessage\<close> returns
  unless the retries setting is the largest \<open>int\<close>, and whenever it returns, every cell of
  the input message holds what it held before, payload, metadata and failure flag, and
  the one message returned is made of as many cells, none of them a cell of the input.
\<close>

theorem ProcessMessage_leaves_input:
  assumes wf: "\<forall>h\<in>set msg. h < next_cell w"
  shows "(sint (Retries (Redis (conf r))) < 2 ^ 63 - 1 \<longrightarrow>
           (\<exists>res w'. ProcessMessage r msg w = Some (res, w'))) \<and>
         (\<forall>res w'. ProcessMessage r msg w = Some (res, w') \<longrightarrow>
           (\<forall>h\<in>set msg. arena w' h = arena w h) \<and>
           (\<exists>newMsg. fst res = [newMsg] \<and> length newMsg = length msg \<and>
                      set newMsg \<inter> set msg = {}))"
proof (intro conjI impI allI)
  let ?w1 = "Incr (mCount r) 1 w"
  let ?n = "next_cell w"
  let ?new = "[?n ..< ?n + length msg]"
  define w2 where "w2 = snd (Copy_msg msg ?w1)"
  have copy: "Copy_msg msg ?w1 = (?new, w2)"
    by (simp add: w2_def Copy_msg_eq Incr_def)
  {
    assume "sint (Retries (Redis (conf r))) < 2 ^ 63 - 1"
    from iterate_total [OF this, of TypeRedis "targets (parts r) (length msg)" ?new w2]
    obtain y where "iterate_parts TypeRedis (targets (parts r) (length msg)) ?new (proc r ?new) w2 = Some y" ..
    then show "\<exists>res w'. ProcessMessage r msg w = Some (res, w')"
      using copy
      by (cases y) (simp add: ProcessMessage_def IteratePartsWithSpan_def Len_def Let_def)
  }
  fix res :: "message list \<times> 'd option" and w'
  assume pm: "ProcessMessage r msg w = Some (res, w')"
  then obtain any w3 where
    it: "iterate_parts TypeRedis (targets (parts r) (length msg)) ?new (proc r ?new) w2 = Some (any, w3)"
    and res: "res = ([?new], None)"
    and w': "w' = Incr (mSent r) (int (Len ?new)) (Incr (mBatchSent r) 1 w3)"
    using copy
    by (auto simp: ProcessMessage_def IteratePartsWithSpan_def Len_def Let_def split: option.splits)
  have lt: "\<forall>i\<in>set (targets (parts r) (length msg)). i < length ?new"
    using targets_bound [of "parts r" "length msg"] by simp
  note fr = iterate_frame [OF it lt]
  show "\<forall>h\<in>set msg. arena w' h = arena w h"
  proof
    fix h assume h: "h \<in> set msg"
    then have lt: "h < ?n" using wf by blast
    then have "h \<notin> set ?new" by simp
    then have "arena w3 h = arena w2 h" using fr by blast
    also have "\<dots> = arena w h" using lt by (simp add: w2_def Copy_msg_eq Incr_def)
    finally show "arena w' h = arena w h" by (simp add: w' Incr_def)
  qed
  have "set ?new \<inter> set msg = {}" using wf by auto
  then show "\<exists>newMsg. fst res = [newMsg] \<and> length newMsg = length msg \<and> set newMsg \<inter> set msg = {}"
    using res by simp
qed

text \<open>
  Witness for C9: the message with \<open>s1\<close> in cell 0 and \<open>s2\<close> in cell 1, against a server
  that holds four members under \<open>s1\<close>. The output is in the cells 2 and 3, with \<open>4\<close> and
  \<open>0\<close>; the cells 0 and 1 still hold \<open>s1\<close> and \<open>s2\<close>.
\<close>

theorem ProcessMessage_leaves_input_witness:
  "0 < next_cell (two_parts set_store) \<and> 1 < next_cell (two_parts set_store) \<and>
   sint (Retries (Redis (conf demo_proc))) < 2 ^ 63 - 1 \<and>
   (\<exists>w'. ProcessMessage demo_proc [0, 1] (two_parts set_store) = Some (([[2, 3]], None :: unit option), w') \<and>
      arena w' 0 = \<lparr>payload = ''s1'', metadata = [], failed = None\<rparr> \<and>
      arena w' 1 = \<lparr>payload = ''s2'', metadata = [], failed = None\<rparr> \<and>
      arena w' 2 = \<lparr>payload = ''4'', metadata = [], failed = None\<rparr> \<and>
      arena w' 3 = \<lparr>payload = ''0'', metadata = [], failed = None\<rparr>)"
proof -
  have n: "0 < next_cell (two_parts set_store)" "1 < next_cell (two_parts set_store)"
    by (simp_all add: two_parts_def)
  then have wf: "\<forall>h\<in>set [0, 1]. h < next_cell (two_parts set_store)" by simp
  have h: "sint (Retries (Redis (conf demo_proc))) < 2 ^ 63 - 1"
    by (simp add: demo_Retries)
  note run = demo_batch_set_store [where ?'a = unit]
  from ProcessMessage_leaves_input [OF wf, of demo_proc] h
  obtain res :: "message list \<times> unit option" and w' where
    pm: "ProcessMessage demo_proc [0, 1] (two_parts set_store) = Some (res, w')" by blast
  from ProcessMessage_leaves_input [OF wf, of demo_proc] pm
  have keep: "\<forall>h\<in>set [0, 1]. arena w' h = arena (two_parts set_store) h" by blast
  from pm run have res: "res = ([[2, 3]], None)" and w': "w' = (two_parts set_store)
       \<lparr>issued := [SCard ''s1'', SCard ''s2''],
         counters := (\<lambda>_. 0)(''count'' := 1, ''sent'' := 2, ''batch.sent'' := 1),
         spans := [StartSpan ''redis'' 0, FinishSpan ''redis'' 0,
                   StartSpan ''redis'' 1, FinishSpan ''redis'' 1],
         arena := (\<lambda>a. if a = 2 then \<lparr>payload = ''4'', metadata = [], failed = None\<rparr>
                        else if a = 3 then \<lparr>payload = ''0'', metadata = [], failed = None\<rparr>
                        else arena (two_parts set_store) a),
         next_cell := 4\<rparr>"
    by simp_all
  have new: "arena w' 2 = \<lparr>payload = ''4'', metadata = [], failed = None\<rparr>"
    "arena w' 3 = \<lparr>payload = ''0'', metadata = [], failed = None\<rparr>"
    by (simp_all add: w')
  have old: "arena w' 0 = \<lparr>payload = ''s1'', metadata = [], failed = None\<rparr>"
    "arena w' 1 = \<lparr>payload = ''s2'', metadata = [], failed = None\<rparr>"
    using keep by (simp_all add: two_parts_def)
  show ?thesis
    using n h pm res new old
    by (intro conjI exI [of _ w']) simp_all
qed

end
